theory Spec2Isabelle
  imports Main "HOL-Library.Sublist"
begin

section \<open>Syntax trees and symbols handed over by the TypeScript front end\<close>

text \<open>
  The bundle builder of \<^verbatim>\<open>src/Bundler.ts\<close> (class \<^verbatim>\<open>BundleBuilder\<close>) reads a few
  attributes of the TypeScript syntax tree: the text range of a node, its kind with the
  kind's own fields, the \<^verbatim>\<open>Export\<close> bit of its flags and the list of its modifiers.
  Positions are offsets into the text of the owning source file. Two fields are renamed:
  \<open>endPos\<close> is \<^verbatim>\<open>end\<close> of a node, and \<open>fileText\<close> is \<^verbatim>\<open>text\<close> of a source file.
\<close>

record textRange =
  pos :: nat
  endPos :: nat

datatype importSpecifier =
  ImportSpecifier (propertyName: "string option") (elementName: string)

datatype namedBindings =
    NamespaceImport string
  | NamedImports "importSpecifier list"

datatype importClause =
  ImportClause (clauseName: "string option") (clauseBindings: "namedBindings option")

datatype moduleReference =
    ExternalModuleReference string
  | EntityName string

text \<open>
  The fields of a node that depend on its kind. \<open>ImportDeclaration c t g\<close> carries the
  import clause, \<^verbatim>\<open>moduleSpecifier.text\<close> and \<^verbatim>\<open>moduleSpecifier.getText()\<close>;
  \<open>ImportEqualsDeclaration n r\<close> carries \<^verbatim>\<open>name.text\<close> and the module reference;
  \<open>ModuleDeclaration n\<close> carries \<^verbatim>\<open>name.getText()\<close>. Every other top-level child of a
  source file (a class, a function, a variable statement, the end-of-file token) is an
  \<open>OtherStatement\<close>.
\<close>

datatype nodeInfo =
    ImportDeclaration "importClause option" string string
  | ImportEqualsDeclaration string moduleReference
  | ExportDeclaration
  | ModuleDeclaration string
  | OtherStatement

record node = textRange +
  nodeId :: nat
  flagExport :: bool
  modifiers :: "textRange list"
  getText :: string
  info :: nodeInfo

datatype languageVariant = Standard | JSX

record sourceFile =
  fileName :: string
  fileText :: string
  isDeclarationFile :: bool
  languageVariant :: languageVariant
  statements :: "node list"

text \<open>
  A symbol is read only through its first declaration: the declaration's kind, its
  \<^verbatim>\<open>Ambient\<close> flag and the source file it lives in. When the declaration is a source
  file, it is that file, and its \<^verbatim>\<open>DeclarationFile\<close> flag is the file's.
\<close>

datatype declarationKind = SourceFileKind | ModuleDeclarationKind | OtherDeclarationKind

record symbol =
  declKind :: declarationKind
  declAmbient :: bool
  declSourceFile :: sourceFile

datatype expressionKind = StringLiteral | OtherExpression

text \<open>
  The collaborators of the builder that are not part of \<^verbatim>\<open>Bundler.ts\<close> are parameters:
  the compiler host (canonical file names, composed with \<^verbatim>\<open>TsCore.normalizeSlashes\<close>),
  the program (\<^verbatim>\<open>getSourceFile\<close>), the \<^verbatim>\<open>DependencyBuilder\<close> (a map from keys to lists
  of import nodes, kept in the order a \<^verbatim>\<open>for .. in\<close> loop visits it),
  \<^verbatim>\<open>TsCore.getExternalModuleName\<close> (the kind of the module name expression of a node,
  if it has one) and the type checker's \<^verbatim>\<open>getSymbolAtLocation\<close>, addressed by the node
  whose module name is looked up.
\<close>

record frontEnd =
  getCanonicalFileName :: "string \<Rightarrow> string"
  getSourceFile :: "string \<Rightarrow> sourceFile option"
  getSourceFileDependencies :: "sourceFile \<Rightarrow> (string \<times> node list) list"
  getExternalModuleName :: "node \<Rightarrow> expressionKind option"
  getSymbolAtLocation :: "node \<Rightarrow> symbol option"

text \<open>
  The bundle: its name, its entry files and its packaging configuration. \<open>bundleFilePath\<close>
  stands for the path the builder computes from the name and \<^verbatim>\<open>config.outDir\<close> with the
  \<^verbatim>\<open>path\<close> module. \<open>OtherPackageType\<close> is any value of the \<^verbatim>\<open>BundlePackageType\<close>
  enumeration other than the two the builder compares with.
\<close>

datatype bundlePackageType = Library | Component | OtherPackageType

record Bundle =
  bundleFilePath :: string
  fileNames :: "string list"
  packageType :: bundlePackageType
  packageNamespace :: string

text \<open>
  A \<^verbatim>\<open>TypeError\<close> is what JavaScript throws when a property of \<^verbatim>\<open>undefined\<close> is read.
\<close>

datatype jsError = TypeError

section \<open>Span blanking\<close>

text \<open>
  \<^verbatim>\<open>whiteOut(pos, end, text)\<close>: \<^verbatim>\<open>text.substring(0, pos)\<close>, then \<^verbatim>\<open>end - pos\<close> spaces
  (none when the difference is not positive), then \<^verbatim>\<open>text.substring(end)\<close>.
  \<^verbatim>\<open>substring\<close> clamps its arguments to the length of the text, as \<open>take\<close> and \<open>drop\<close> do.
\<close>

definition whiteOut :: "nat \<Rightarrow> nat \<Rightarrow> string \<Rightarrow> string" where
  "whiteOut p e txt = take p txt @ replicate (e - p) (CHR '' '') @ drop e txt"

section \<open>Editing the text of one source file\<close>

definition isCodeSourceFile :: "sourceFile \<Rightarrow> bool" where
  "isCodeSourceFile file = (\<not> isDeclarationFile file)"

definition isCodeModule :: "symbol \<Rightarrow> bool" where
  "isCodeModule importSymbol =
     (declKind importSymbol = SourceFileKind \<and> \<not> isDeclarationFile (declSourceFile importSymbol))"

definition isAmbientModule :: "symbol \<Rightarrow> bool" where
  "isAmbientModule importSymbol =
     (declKind importSymbol = ModuleDeclarationKind \<and> declAmbient importSymbol)"

definition isImportOrExport :: "node \<Rightarrow> bool" where
  "isImportOrExport n =
     (case info n of
        ImportDeclaration c t g \<Rightarrow> True
      | ImportEqualsDeclaration nm r \<Rightarrow> True
      | ExportDeclaration \<Rightarrow> True
      | ModuleDeclaration nm \<Rightarrow> False
      | OtherStatement \<Rightarrow> False)"

text \<open>
  \<^verbatim>\<open>node.modifiers[0]\<close> blanked: reading \<^verbatim>\<open>pos\<close> of a missing first modifier throws.
\<close>

definition whiteOutFirstModifier :: "node \<Rightarrow> string \<Rightarrow> jsError + string" where
  "whiteOutFirstModifier n editText =
     (case modifiers n of
        [] \<Rightarrow> Inl TypeError
      | m # ms \<Rightarrow> Inr (whiteOut (pos m) (endPos m) editText))"

text \<open>
  The callback of \<^verbatim>\<open>ts.forEachChild\<close> in \<^verbatim>\<open>processImportExports\<close>, for one top-level
  node. The source tests \<^verbatim>\<open>this.isCodeModule( moduleSymbol ) || this.isAmbientModule\<close>:
  the second operand is the method itself, not a call of it, and a function is truthy,
  hence the disjunct \<open>True\<close>.
\<close>

definition processNode :: "frontEnd \<Rightarrow> Bundle \<Rightarrow> node \<Rightarrow> string \<Rightarrow> jsError + string" where
  "processNode fe b n editText =
     (if isImportOrExport n then
        (case getExternalModuleName fe n of
           Some StringLiteral \<Rightarrow>
             (case getSymbolAtLocation fe n of
                Some moduleSymbol \<Rightarrow>
                  if isCodeModule moduleSymbol \<or> True
                  then Inr (whiteOut (pos n) (endPos n) editText)
                  else Inr editText
              | None \<Rightarrow> Inr editText)
         | Some OtherExpression \<Rightarrow> Inr editText
         | None \<Rightarrow> Inr editText)
      else if packageType b = Component then
        (case info n of
           ModuleDeclaration nm \<Rightarrow>
             if nm \<noteq> packageNamespace b then
               (if flagExport n then whiteOutFirstModifier n editText else Inr editText)
             else Inr editText
         | _ \<Rightarrow>
             if flagExport n then whiteOutFirstModifier n editText else Inr editText)
      else Inr editText)"

fun processNodes :: "frontEnd \<Rightarrow> Bundle \<Rightarrow> node list \<Rightarrow> string \<Rightarrow> jsError + string" where
  "processNodes fe b [] editText = Inr editText"
| "processNodes fe b (n # ns) editText =
     (case processNode fe b n editText of
        Inl e \<Rightarrow> Inl e
      | Inr editText' \<Rightarrow> processNodes fe b ns editText')"

definition processImportExports :: "frontEnd \<Rightarrow> Bundle \<Rightarrow> sourceFile \<Rightarrow> jsError + string" where
  "processImportExports fe b file = processNodes fe b (statements file) (fileText file)"

section \<open>The state of one build\<close>

text \<open>
  The private fields of \<^verbatim>\<open>BundleBuilder\<close> that \<^verbatim>\<open>build\<close> resets and then updates. The
  three \<^verbatim>\<open>ts.Map\<close> objects are given by their own properties, as finite maps;
  \<^verbatim>\<open>Utils.hasProperty\<close> is membership in the domain. The keys of \<^verbatim>\<open>bundleImportedFiles\<close>
  and \<^verbatim>\<open>bundleSourceFiles\<close> are file names of the program, which end in an extension.
\<close>

record builderState =
  bundleCodeText :: string
  bundleImportText :: string
  bundleImportedFiles :: "string \<rightharpoonup> string"
  bundleModuleImports :: "string \<rightharpoonup> (string \<rightharpoonup> string)"
  bundleSourceFiles :: "string \<rightharpoonup> string"

abbreviation LF :: string where
  "LF \<equiv> [CHR 0x0A]"

abbreviation CRLF :: string where
  "CRLF \<equiv> [CHR 0x0D, CHR 0x0A]"

definition initialState :: builderState where
  "initialState =
     \<lparr>bundleCodeText = [], bundleImportText = [], bundleImportedFiles = Map.empty,
      bundleModuleImports = Map.empty, bundleSourceFiles = Map.empty\<rparr>"

section \<open>The registry of external imports\<close>

text \<open>
  The three maps are plain JavaScript objects, and \<^verbatim>\<open>Utils.hasProperty\<close> tests own
  properties. An assignment to the key \<^verbatim>\<open>__proto__\<close> creates no own property: with an
  object as value it replaces the prototype of the object, with a string as value it does
  nothing. \<open>storeModuleImports\<close> is what \<^verbatim>\<open>bundleModuleImports\<close> holds after
  \<^verbatim>\<open>addModuleImport\<close> has worked on the entry of a module: the entry is an own property,
  except for the module specifier \<^verbatim>\<open>__proto__\<close>, whose entry is the prototype that line
  379 replaces by a fresh object at every call.
\<close>

definition storeModuleImports ::
  "(string \<rightharpoonup> (string \<rightharpoonup> string)) \<Rightarrow> string \<Rightarrow> (string \<rightharpoonup> string)
     \<Rightarrow> (string \<rightharpoonup> (string \<rightharpoonup> string))" where
  "storeModuleImports modules moduleName moduleImports =
     (if moduleName = ''__proto__'' \<and> modules moduleName = None then modules
      else modules(moduleName \<mapsto> moduleImports))"

text \<open>
  \<^verbatim>\<open>addModuleImport\<close>: the entry of the module is created empty when it is missing (for
  \<^verbatim>\<open>__proto__\<close> the read at line 382 gives the fresh prototype); when the entry does not
  hold the import name, the name is recorded (the assignment at line 385, which does
  nothing for the name \<^verbatim>\<open>__proto__\<close>) and \<open>True\<close> is returned.
\<close>

definition addModuleImport :: "string \<Rightarrow> string \<Rightarrow> builderState \<Rightarrow> bool \<times> builderState" where
  "addModuleImport moduleName importName s =
     (let moduleImports =
            (case bundleModuleImports s moduleName of None \<Rightarrow> Map.empty | Some m \<Rightarrow> m)
      in case moduleImports importName of
           None \<Rightarrow>
             (True, s\<lparr>bundleModuleImports :=
                storeModuleImports (bundleModuleImports s) moduleName
                  (if importName = ''__proto__'' then moduleImports
                   else moduleImports(importName \<mapsto> importName))\<rparr>)
         | Some v \<Rightarrow>
             (False, s\<lparr>bundleModuleImports :=
                storeModuleImports (bundleModuleImports s) moduleName moduleImports\<rparr>))"

definition emitModuleImportDeclaration :: "string \<Rightarrow> builderState \<Rightarrow> builderState" where
  "emitModuleImportDeclaration moduleBlockText s =
     s\<lparr>bundleImportText := bundleImportText s @ moduleBlockText @ LF\<rparr>"

definition getImportModuleName :: "moduleReference \<Rightarrow> string" where
  "getImportModuleName r =
     (case r of ExternalModuleReference t \<Rightarrow> t | EntityName g \<Rightarrow> g)"

section \<open>Rewriting an external import declaration\<close>

text \<open>
  \<^verbatim>\<open>writeImportDeclaration\<close> in three steps, each threading the text written so far
  (\<^verbatim>\<open>importToWrite\<close>), the flag it sets and the state: the default binding, the named
  bindings, and the emission.
\<close>

definition writeDefaultBinding ::
  "string \<Rightarrow> string option \<Rightarrow> builderState \<Rightarrow> string \<times> bool \<times> builderState" where
  "writeDefaultBinding moduleName nm s =
     (case nm of
        None \<Rightarrow> (''import '', False, s)
      | Some t \<Rightarrow>
          (case addModuleImport moduleName t s of
             (True, s') \<Rightarrow> (''import '' @ t, True, s')
           | (False, s') \<Rightarrow> (''import '', False, s')))"

text \<open>The callback of \<^verbatim>\<open>Utils.forEach\<close> over the elements of a named import list.\<close>

definition writeElement ::
  "string \<Rightarrow> importSpecifier \<Rightarrow> string \<times> bool \<times> builderState \<Rightarrow> string \<times> bool \<times> builderState" where
  "writeElement moduleName element acc =
     (case acc of (importToWrite, hasNamedBindings, s) \<Rightarrow>
        (case addModuleImport moduleName (elementName element) s of
           (True, s') \<Rightarrow>
             (let w = (if \<not> hasNamedBindings then importToWrite else importToWrite @ '', '')
              in (case propertyName element of
                    Some alias \<Rightarrow> w @ alias @ '' as '' @ elementName element
                  | None \<Rightarrow> w @ elementName element,
                  True, s'))
         | (False, s') \<Rightarrow> (importToWrite, hasNamedBindings, s')))"

fun writeElements ::
  "string \<Rightarrow> importSpecifier list \<Rightarrow> string \<times> bool \<times> builderState \<Rightarrow> string \<times> bool \<times> builderState" where
  "writeElements moduleName [] acc = acc"
| "writeElements moduleName (element # elements) acc =
     writeElements moduleName elements (writeElement moduleName element acc)"

definition writeNamedBindings ::
  "string \<Rightarrow> namedBindings option \<Rightarrow> bool \<Rightarrow> string \<Rightarrow> builderState
     \<Rightarrow> string \<times> bool \<times> builderState" where
  "writeNamedBindings moduleName nb hasDefaultBinding importToWrite s =
     (case nb of
        None \<Rightarrow> (importToWrite, False, s)
      | Some (NamespaceImport t) \<Rightarrow>
          (case addModuleImport moduleName t s of
             (True, s') \<Rightarrow>
               ((if hasDefaultBinding then importToWrite @ '', '' else importToWrite)
                  @ ''* as '' @ t, True, s')
           | (False, s') \<Rightarrow> (importToWrite, False, s'))
      | Some (NamedImports elements) \<Rightarrow>
          (case writeElements moduleName elements
                  ((if hasDefaultBinding then importToWrite @ '', '' else importToWrite) @ ''{ '',
                   False, s) of
             (w, hasNamedBindings, s') \<Rightarrow> (w @ '' }'', hasNamedBindings, s')))"

definition writeImportDeclaration :: "node \<Rightarrow> builderState \<Rightarrow> builderState" where
  "writeImportDeclaration n s =
     (case info n of
        ImportDeclaration (Some clause) moduleName specifierText \<Rightarrow>
          (case writeDefaultBinding moduleName (clauseName clause) s of
             (w0, hasDefaultBinding, s0) \<Rightarrow>
               (case writeNamedBindings moduleName (clauseBindings clause) hasDefaultBinding w0 s0 of
                  (w1, hasNamedBindings, s1) \<Rightarrow>
                    if hasDefaultBinding \<or> hasNamedBindings
                    then emitModuleImportDeclaration (w1 @ '' from '' @ specifierText @ '';'') s1
                    else s1))
      | _ \<Rightarrow> s)"

section \<open>Adding a source file and walking the dependencies\<close>

definition addSourceFile ::
  "frontEnd \<Rightarrow> Bundle \<Rightarrow> sourceFile \<Rightarrow> builderState \<Rightarrow> jsError + builderState" where
  "addSourceFile fe b file s =
     (if isCodeSourceFile file then
        (case processImportExports fe b file of
           Inl e \<Rightarrow> Inl e
         | Inr editText \<Rightarrow>
             Inr (s\<lparr>bundleCodeText := bundleCodeText s @ editText @ LF,
                    bundleImportedFiles :=
                      (bundleImportedFiles s)(fileName file \<mapsto> fileName file)\<rparr>))
      else if fileName file \<notin> dom (bundleSourceFiles s) then
        Inr (s\<lparr>bundleSourceFiles := (bundleSourceFiles s)(fileName file \<mapsto> fileText file)\<rparr>)
      else Inr s)"

definition getSymbolFromNode :: "frontEnd \<Rightarrow> node \<Rightarrow> symbol option" where
  "getSymbolFromNode fe n =
     (case getExternalModuleName fe n of
        Some StringLiteral \<Rightarrow> getSymbolAtLocation fe n
      | Some OtherExpression \<Rightarrow> None
      | None \<Rightarrow> None)"

text \<open>
  The callback of \<^verbatim>\<open>sourceDependencies[depKey].forEach\<close> in \<^verbatim>\<open>build\<close>. \<^verbatim>\<open>isCodeModule\<close>
  reads \<^verbatim>\<open>getDeclarations\<close> of the symbol, which throws when \<^verbatim>\<open>getSymbolFromNode\<close> gave
  \<^verbatim>\<open>undefined\<close>.
\<close>

definition walkImportNode ::
  "frontEnd \<Rightarrow> Bundle \<Rightarrow> node \<Rightarrow> builderState \<Rightarrow> jsError + builderState" where
  "walkImportNode fe b importNode s =
     (case getSymbolFromNode fe importNode of
        None \<Rightarrow> Inl TypeError
      | Some importSymbol \<Rightarrow>
          if isCodeModule importSymbol then
            (let importedSource = declSourceFile importSymbol
             in if fileName importedSource \<notin> dom (bundleImportedFiles s)
                then addSourceFile fe b importedSource s
                else Inr s)
          else
            (case info importNode of
               ImportEqualsDeclaration importName r \<Rightarrow>
                 (case addModuleImport (getImportModuleName r) importName s of
                    (True, s') \<Rightarrow> Inr (emitModuleImportDeclaration (getText importNode) s')
                  | (False, s') \<Rightarrow> Inr s')
             | _ \<Rightarrow> Inr (writeImportDeclaration importNode s)))"

fun walkImportNodes ::
  "frontEnd \<Rightarrow> Bundle \<Rightarrow> node list \<Rightarrow> builderState \<Rightarrow> jsError + builderState" where
  "walkImportNodes fe b [] s = Inr s"
| "walkImportNodes fe b (n # ns) s =
     (case walkImportNode fe b n s of
        Inl e \<Rightarrow> Inl e
      | Inr s' \<Rightarrow> walkImportNodes fe b ns s')"

text \<open>The loop \<^verbatim>\<open>for ( var depKey in sourceDependencies )\<close>.\<close>

fun walkDependencies ::
  "frontEnd \<Rightarrow> Bundle \<Rightarrow> (string \<times> node list) list \<Rightarrow> builderState \<Rightarrow> jsError + builderState" where
  "walkDependencies fe b [] s = Inr s"
| "walkDependencies fe b (dep # deps) s =
     (case walkImportNodes fe b (snd dep) s of
        Inl e \<Rightarrow> Inl e
      | Inr s' \<Rightarrow> walkDependencies fe b deps s')"

section \<open>The build\<close>

datatype diagnosticCategory = Warning | Error | Message

text \<open>
  A diagnostic as \<^verbatim>\<open>build\<close> hands it to \<^verbatim>\<open>TsCore.createDiagnostic\<close>: the message
  descriptor and the arguments for its placeholders.
\<close>

record diagnostic =
  diagCode :: nat
  diagCategory :: diagnosticCategory
  diagKey :: string
  diagMessage :: string
  diagArguments :: "string list"

datatype exitStatus =
  Success | DiagnosticsPresent_OutputsSkipped | DiagnosticsPresent_OutputsGenerated

record bundleFile =
  path :: string
  extension :: string
  bundleFileText :: string

text \<open>The arguments of \<^verbatim>\<open>new BundleResult( status, errors, bundleSource )\<close>.\<close>

record BundleResult =
  status :: exitStatus
  errors :: "diagnostic list option"
  bundleSource :: "bundleFile option"

definition sourceFileNotFound :: "string \<Rightarrow> diagnostic" where
  "sourceFileNotFound bundleSourceFileName =
     \<lparr>diagCode = 6060, diagCategory = Error,
      diagKey = ''Bundle_source_file_0_not_found_6060'',
      diagMessage = ''Bundle source file '' @ [CHR 0x27] @ ''{0}'' @ [CHR 0x27] @ '' not found.'',
      diagArguments = [bundleSourceFileName]\<rparr>"

text \<open>
  The loop over \<^verbatim>\<open>bundle.fileNames\<close>, with \<^verbatim>\<open>isBundleTsx\<close> and the builder's fields as
  the loop state. \<open>Inr (Inl r)\<close> is the early \<^verbatim>\<open>return\<close> of a result, \<open>Inl e\<close> an
  exception that leaves \<^verbatim>\<open>build\<close>. The timers, the log and \<^verbatim>\<open>allDependencies\<close>, which
  is filled and never read, are left out.
\<close>

fun buildFiles ::
  "frontEnd \<Rightarrow> Bundle \<Rightarrow> string list \<Rightarrow> bool \<Rightarrow> builderState
     \<Rightarrow> jsError + (BundleResult + bool \<times> builderState)" where
  "buildFiles fe b [] isBundleTsx s = Inr (Inr (isBundleTsx, s))"
| "buildFiles fe b (entry # rest) isBundleTsx s =
     (let bundleSourceFileName = getCanonicalFileName fe entry
      in case getSourceFile fe bundleSourceFileName of
           None \<Rightarrow>
             Inr (Inl \<lparr>status = DiagnosticsPresent_OutputsSkipped,
                       errors = Some [sourceFileNotFound bundleSourceFileName],
                       bundleSource = None\<rparr>)
         | Some bundleSourceFile \<Rightarrow>
             (let isBundleTsx' =
                    (if languageVariant bundleSourceFile = JSX then True else isBundleTsx)
              in case walkDependencies fe b
                        (getSourceFileDependencies fe bundleSourceFile) s of
                   Inl e \<Rightarrow> Inl e
                 | Inr s1 \<Rightarrow>
                     (case addSourceFile fe b bundleSourceFile s1 of
                        Inl e \<Rightarrow> Inl e
                      | Inr s2 \<Rightarrow> buildFiles fe b rest isBundleTsx' s2)))"

definition assemble :: "Bundle \<Rightarrow> bool \<Rightarrow> builderState \<Rightarrow> BundleResult" where
  "assemble b isBundleTsx s =
     (let bundleText =
            (if packageType b = Library
             then bundleImportText s @ ''export namespace '' @ packageNamespace b @ '' {'' @ CRLF
                    @ bundleCodeText s @ '' '' @ CRLF @ ''}''
             else bundleImportText s @ bundleCodeText s);
          bundleExtension = (if isBundleTsx then ''.tsx'' else ''.ts'')
      in \<lparr>status = Success, errors = None,
          bundleSource = Some \<lparr>path = bundleFilePath b @ bundleExtension,
                                extension = bundleExtension,
                                bundleFileText = bundleText\<rparr>\<rparr>)"

definition build :: "frontEnd \<Rightarrow> Bundle \<Rightarrow> jsError + BundleResult" where
  "build fe b =
     (case buildFiles fe b (fileNames b) False initialState of
        Inl e \<Rightarrow> Inl e
      | Inr (Inl failure) \<Rightarrow> Inr failure
      | Inr (Inr (isBundleTsx, s)) \<Rightarrow> Inr (assemble b isBundleTsx s))"

text \<open>
  Readers of a finished build: the text of the bundle file of a result, the builder's state
  when the loop over the entry files has run to its end, and the two texts of that state.
\<close>

definition resultText :: "jsError + BundleResult \<Rightarrow> string option" where
  "resultText r =
     (case r of Inl e \<Rightarrow> None | Inr res \<Rightarrow> map_option bundleFileText (bundleSource res))"

definition resultExtension :: "jsError + BundleResult \<Rightarrow> string option" where
  "resultExtension r =
     (case r of Inl e \<Rightarrow> None | Inr res \<Rightarrow> map_option extension (bundleSource res))"

definition builtState :: "frontEnd \<Rightarrow> Bundle \<Rightarrow> builderState option" where
  "builtState fe b =
     (case buildFiles fe b (fileNames b) False initialState of
        Inl e \<Rightarrow> None
      | Inr (Inl failure) \<Rightarrow> None
      | Inr (Inr (isBundleTsx, s)) \<Rightarrow> Some s)"

definition bodyText :: "frontEnd \<Rightarrow> Bundle \<Rightarrow> string option" where
  "bodyText fe b = map_option bundleCodeText (builtState fe b)"

definition preambleText :: "frontEnd \<Rightarrow> Bundle \<Rightarrow> string option" where
  "preambleText fe b = map_option bundleImportText (builtState fe b)"

definition throws :: "jsError + 'a \<Rightarrow> bool" where
  "throws r = (case r of Inl e \<Rightarrow> True | Inr v \<Rightarrow> False)"

text \<open>
  The wrapping of a library bundle in the words of the specification:
  \<^verbatim>\<open>export namespace <Namespace> {\n<body>\n}\<close>.
\<close>

definition specifiedLibraryWrapping :: "string \<Rightarrow> string \<Rightarrow> string" where
  "specifiedLibraryWrapping namespace body =
     ''export namespace '' @ namespace @ '' {'' @ LF @ body @ LF @ ''}''"

section \<open>Well-formed input\<close>

text \<open>
  The parser's spans lie inside the text of their file: for every top-level node and every
  modifier of it, \<open>pos \<le> end \<le> length text\<close>.
\<close>

definition nodeInRange :: "nat \<Rightarrow> node \<Rightarrow> bool" where
  "nodeInRange len n =
     (pos n \<le> endPos n \<and> endPos n \<le> len \<and>
      list_all (\<lambda>m. pos m \<le> endPos m \<and> endPos m \<le> len) (modifiers n))"

definition spansInRange :: "sourceFile \<Rightarrow> bool" where
  "spansInRange file = list_all (nodeInRange (length (fileText file))) (statements file)"

text \<open>
  The parser's top-level nodes do not overlap, and the modifiers of a node lie inside the
  node.
\<close>

definition modifiersInside :: "node \<Rightarrow> bool" where
  "modifiersInside n = list_all (\<lambda>m. pos n \<le> pos m \<and> endPos m \<le> endPos n) (modifiers n)"

definition apart :: "node \<Rightarrow> node \<Rightarrow> bool" where
  "apart n n' = (n' = n \<or> endPos n' \<le> pos n \<or> endPos n \<le> pos n')"

definition nodesApart :: "sourceFile \<Rightarrow> bool" where
  "nodesApart file =
     list_all (\<lambda>n. modifiersInside n \<and> list_all (apart n) (statements file)) (statements file)"

section \<open>The classes of module references of the specification\<close>

text \<open>
  The import classifier in the words of the specification: a reference is Internal when
  the resolved declaration is an emittable source file, an ambient declaration when the
  declaration is an ambient module declaration or a declaration-only source file, and
  External otherwise (no literal specifier, no symbol, or an external package).
\<close>

datatype referenceClass = Internal | AmbientDeclaration | External

definition classify :: "frontEnd \<Rightarrow> node \<Rightarrow> referenceClass" where
  "classify fe n =
     (case getSymbolFromNode fe n of
        None \<Rightarrow> External
      | Some importSymbol \<Rightarrow>
          if isCodeModule importSymbol then Internal
          else if isAmbientModule importSymbol
                  \<or> (declKind importSymbol = SourceFileKind
                      \<and> isDeclarationFile (declSourceFile importSymbol))
          then AmbientDeclaration
          else External)"

text \<open>
  The declarations the export-modifier policy of Component packaging applies to: a
  namespace or module declaration whose name differs from the configured namespace, and
  any other top-level declaration that is not an import or export statement.
\<close>

definition exportStripped :: "Bundle \<Rightarrow> node \<Rightarrow> bool" where
  "exportStripped b n =
     (case info n of
        ModuleDeclaration nm \<Rightarrow> nm \<noteq> packageNamespace b
      | OtherStatement \<Rightarrow> True
      | ImportDeclaration c t g \<Rightarrow> False
      | ImportEqualsDeclaration nm r \<Rightarrow> False
      | ExportDeclaration \<Rightarrow> False)"

section \<open>The registry read as a set of pairs\<close>

text \<open>
  A pair of module specifier and binding name is registered when the entry of the module
  in \<^verbatim>\<open>bundleModuleImports\<close> is an own property and holds the name as an own property.
\<close>

definition registered :: "builderState \<Rightarrow> string \<Rightarrow> string \<Rightarrow> bool" where
  "registered s moduleName importName =
     (case bundleModuleImports s moduleName of
        None \<Rightarrow> False
      | Some moduleImports \<Rightarrow> moduleImports importName \<noteq> None)"

section \<open>The order of the bodies\<close>

text \<open>
  The program has one source file per file name: \<^verbatim>\<open>program.getSourceFile\<close> of the name
  of a file of the program, and of the file a code module symbol resolves to, is that file.
\<close>

definition filesByName :: "frontEnd \<Rightarrow> bool" where
  "filesByName fe =
     ((\<forall>nm src. getSourceFile fe nm = Some src \<longrightarrow> getSourceFile fe (fileName src) = Some src)
      \<and> (\<forall>n importSymbol.
            getSymbolFromNode fe n = Some importSymbol \<and> isCodeModule importSymbol \<longrightarrow>
            getSourceFile fe (fileName (declSourceFile importSymbol))
              = Some (declSourceFile importSymbol)))"

text \<open>
  Every file of the program whose name is in \<^verbatim>\<open>bundleImportedFiles\<close> has its edited
  body, followed by a line feed, in \<^verbatim>\<open>bundleCodeText\<close>.
\<close>

definition bodiesPresent :: "frontEnd \<Rightarrow> Bundle \<Rightarrow> builderState \<Rightarrow> bool" where
  "bodiesPresent fe b s =
     (\<forall>src. getSourceFile fe (fileName src) = Some src
             \<and> fileName src \<in> dom (bundleImportedFiles s) \<longrightarrow>
            (\<exists>editText. processImportExports fe b src = Inr editText
                         \<and> sublist (editText @ LF) (bundleCodeText s)))"

text \<open>
  \<open>occursBefore x y t\<close>: the text \<open>t\<close> has an occurrence of \<open>x\<close> that ends before an
  occurrence of \<open>y\<close> starts. \<open>findsBefore\<close> decides it by search.
\<close>

definition occursBefore :: "string \<Rightarrow> string \<Rightarrow> string \<Rightarrow> bool" where
  "occursBefore x y t = (\<exists>p q r. t = p @ x @ q @ y @ r)"

fun findsBefore :: "string \<Rightarrow> string \<Rightarrow> string \<Rightarrow> bool" where
  "findsBefore x y [] = (x = [] \<and> y = [])"
| "findsBefore x y (c # t) =
     ((prefix x (c # t) \<and> sublist y (drop (length x) (c # t))) \<or> findsBefore x y t)"

text \<open>
  Unit \<open>A\<close> imports unit \<open>B\<close>: a top-level import or export node of \<open>A\<close> resolves to the
  code module \<open>B\<close>.
\<close>

definition importsUnit :: "frontEnd \<Rightarrow> sourceFile \<Rightarrow> sourceFile \<Rightarrow> bool" where
  "importsUnit fe A B =
     list_ex (\<lambda>n. isImportOrExport n \<and>
                  (case getSymbolFromNode fe n of
                     None \<Rightarrow> False
                   | Some importSymbol \<Rightarrow>
                       isCodeModule importSymbol \<and> declSourceFile importSymbol = B))
       (statements A)"

text \<open>
  The code module an import node resolves to, the units a unit imports, read off its
  top-level import and export nodes, and the transitive closure of the import relation:
  \<open>importsBack fe Y X\<close> says that \<open>X\<close> is reached from \<open>Y\<close> along imports.
\<close>

definition targetOf :: "frontEnd \<Rightarrow> node \<Rightarrow> sourceFile option" where
  "targetOf fe n =
     (case getSymbolFromNode fe n of
        None \<Rightarrow> None
      | Some importSymbol \<Rightarrow>
          if isCodeModule importSymbol then Some (declSourceFile importSymbol) else None)"

definition importedUnits :: "frontEnd \<Rightarrow> sourceFile \<Rightarrow> sourceFile list" where
  "importedUnits fe A = List.map_filter (targetOf fe) (filter isImportOrExport (statements A))"

definition importsBack :: "frontEnd \<Rightarrow> sourceFile \<Rightarrow> sourceFile \<Rightarrow> bool" where
  "importsBack fe = tranclp (importsUnit fe)"

text \<open>
  The import nodes of the dependency map of an entry file, in the order in which \<^verbatim>\<open>build\<close>
  walks them.
\<close>

definition listedNodes :: "frontEnd \<Rightarrow> sourceFile \<Rightarrow> node list" where
  "listedNodes fe E = concat (map snd (getSourceFileDependencies fe E))"

text \<open>
  Modelled from the spec: \<^verbatim>\<open>DependencyBuilder.getSourceFileDependencies\<close> is imported by
  \<^verbatim>\<open>Bundler.ts\<close> and is not part of it; \<^verbatim>\<open>build\<close> adds the dependencies in the order of
  the map it returns (``Add module dependencies first..''). The specification has the
  dependencies of an entry unit computed transitively and emitted before their
  dependents, an import that leads back into a cycle counting as satisfied.
  \<open>listedFirst fe earlier ns\<close> says so of the nodes \<open>ns\<close> of a map, \<open>earlier\<close> being the units
  listed before them: when a node lists a unit \<open>X\<close> for the first time, every unit that
  \<open>X\<close> imports is listed already or imports \<open>X\<close> back. \<open>dependenciesFirst fe E\<close> adds that
  every unit the entry \<open>E\<close> imports is listed or imports \<open>E\<close> back.
\<close>

fun listedFirst :: "frontEnd \<Rightarrow> sourceFile list \<Rightarrow> node list \<Rightarrow> bool" where
  "listedFirst fe earlier [] = True"
| "listedFirst fe earlier (n # ns) =
     (case targetOf fe n of
        None \<Rightarrow> listedFirst fe earlier ns
      | Some X \<Rightarrow>
          (X \<in> set earlier
           \<or> list_all (\<lambda>Y. Y \<in> set earlier \<or> importsBack fe Y X) (importedUnits fe X))
          \<and> listedFirst fe (X # earlier) ns)"

definition dependenciesFirst :: "frontEnd \<Rightarrow> sourceFile \<Rightarrow> bool" where
  "dependenciesFirst fe E =
     (listedFirst fe [] (listedNodes fe E)
      \<and> list_all (\<lambda>Y. Y \<in> set (List.map_filter (targetOf fe) (listedNodes fe E))
                       \<or> importsBack fe Y E)
          (importedUnits fe E))"

definition dependencyMapsOrdered :: "frontEnd \<Rightarrow> Bundle \<Rightarrow> bool" where
  "dependencyMapsOrdered fe b =
     list_all (\<lambda>entry. case getSourceFile fe (getCanonicalFileName fe entry) of
                          None \<Rightarrow> True
                        | Some E \<Rightarrow> dependenciesFirst fe E)
       (fileNames b)"



section \<open>Example programs\<close>

text \<open>
  File \<^verbatim>\<open>b.tsx\<close> is \<^verbatim>\<open>export class B{}\<close>; file \<^verbatim>\<open>a.ts\<close> is
  \<^verbatim>\<open>import{B}from'./b';new B\<close> and imports \<^verbatim>\<open>b.tsx\<close>.
\<close>

definition classB :: node where
  "classB = \<lparr>pos = 0, endPos = 16, nodeId = 1, flagExport = True,
             modifiers = [\<lparr>pos = 0, endPos = 6\<rparr>], getText = ''export class B{}'',
             info = OtherStatement\<rparr>"

definition fileB :: sourceFile where
  "fileB = \<lparr>fileName = ''b.tsx'', fileText = ''export class B{}'', isDeclarationFile = False,
            languageVariant = JSX, statements = [classB]\<rparr>"

definition importB :: node where
  "importB = \<lparr>pos = 0, endPos = 19, nodeId = 2, flagExport = False, modifiers = [],
              getText = ''import{B}from'./b';'',
              info = ImportDeclaration
                       (Some (ImportClause None (Some (NamedImports [ImportSpecifier None ''B'']))))
                       ''./b'' (CHR 0x27 # ''./b'' @ [CHR 0x27])\<rparr>"

definition newB :: node where
  "newB = \<lparr>pos = 19, endPos = 24, nodeId = 3, flagExport = False, modifiers = [],
           getText = ''new B'', info = OtherStatement\<rparr>"

definition fileA :: sourceFile where
  "fileA = \<lparr>fileName = ''a.ts'', fileText = ''import{B}from'./b';new B'',
            isDeclarationFile = False, languageVariant = Standard,
            statements = [importB, newB]\<rparr>"

definition symB :: symbol where
  "symB = \<lparr>declKind = SourceFileKind, declAmbient = False, declSourceFile = fileB\<rparr>"

definition feAB :: frontEnd where
  "feAB =
     \<lparr>getCanonicalFileName = (\<lambda>f. f),
      getSourceFile = [''a.ts'' \<mapsto> fileA, ''b.tsx'' \<mapsto> fileB],
      getSourceFileDependencies =
        (\<lambda>f. if fileName f = ''a.ts'' then [(''b.tsx'', [importB])] else []),
      getExternalModuleName = (\<lambda>n. if isImportOrExport n then Some StringLiteral else None),
      getSymbolAtLocation = (\<lambda>n. if nodeId n = 2 then Some symB else None)\<rparr>"

definition componentAB :: Bundle where
  "componentAB = \<lparr>bundleFilePath = ''out/app'', fileNames = [''a.ts'', ''b.tsx''],
                  packageType = Component, packageNamespace = ''App''\<rparr>"

definition libraryA :: Bundle where
  "libraryA = \<lparr>bundleFilePath = ''out/lib'', fileNames = [''a.ts''],
               packageType = Library, packageNamespace = ''Foo''\<rparr>"

definition componentMissing :: Bundle where
  "componentMissing = \<lparr>bundleFilePath = ''out/app'', fileNames = [''a.ts'', ''missing.ts'', ''b.tsx''],
                       packageType = Component, packageNamespace = ''App''\<rparr>"

text \<open>
  File \<^verbatim>\<open>c.ts\<close> is \<^verbatim>\<open>import'm';import x from'q';import{r as s,t}from'm';\<close>. Module
  \<^verbatim>\<open>m\<close> is declared by the ambient declaration \<^verbatim>\<open>declare module'm'{}\<close> of \<^verbatim>\<open>m.d.ts\<close>;
  module \<^verbatim>\<open>q\<close> is unknown to the type checker.
\<close>

definition moduleM :: node where
  "moduleM = \<lparr>pos = 0, endPos = 19, nodeId = 10, flagExport = False,
              modifiers = [\<lparr>pos = 0, endPos = 7\<rparr>], getText = ''declare module'm'{}'',
              info = ModuleDeclaration (CHR 0x27 # ''m'' @ [CHR 0x27])\<rparr>"

definition fileMd :: sourceFile where
  "fileMd = \<lparr>fileName = ''m.d.ts'', fileText = ''declare module'm'{}'', isDeclarationFile = True,
             languageVariant = Standard, statements = [moduleM]\<rparr>"

definition symM :: symbol where
  "symM = \<lparr>declKind = ModuleDeclarationKind, declAmbient = True, declSourceFile = fileMd\<rparr>"

definition importM :: node where
  "importM = \<lparr>pos = 0, endPos = 10, nodeId = 20, flagExport = False, modifiers = [],
              getText = ''import'm';'',
              info = ImportDeclaration None ''m'' (CHR 0x27 # ''m'' @ [CHR 0x27])\<rparr>"

definition importQ :: node where
  "importQ = \<lparr>pos = 10, endPos = 27, nodeId = 21, flagExport = False, modifiers = [],
              getText = ''import x from'q';'',
              info = ImportDeclaration (Some (ImportClause (Some ''x'') None))
                       ''q'' (CHR 0x27 # ''q'' @ [CHR 0x27])\<rparr>"

definition importST :: node where
  "importST = \<lparr>pos = 27, endPos = 51, nodeId = 22, flagExport = False, modifiers = [],
               getText = ''import{r as s,t}from'm';'',
               info = ImportDeclaration
                        (Some (ImportClause None
                           (Some (NamedImports [ImportSpecifier (Some ''r'') ''s'',
                                                ImportSpecifier None ''t'']))))
                        ''m'' (CHR 0x27 # ''m'' @ [CHR 0x27])\<rparr>"

definition fileC :: sourceFile where
  "fileC = \<lparr>fileName = ''c.ts'',
            fileText = ''import'm';import x from'q';import{r as s,t}from'm';'',
            isDeclarationFile = False, languageVariant = Standard,
            statements = [importM, importQ, importST]\<rparr>"

text \<open>
  File \<^verbatim>\<open>n.ts\<close> is \<^verbatim>\<open>export var c;export namespace N{}export namespace App{}\<close>.
\<close>

definition exportC :: node where
  "exportC = \<lparr>pos = 0, endPos = 13, nodeId = 30, flagExport = True,
              modifiers = [\<lparr>pos = 0, endPos = 6\<rparr>], getText = ''export var c;'',
              info = OtherStatement\<rparr>"

definition namespaceN :: node where
  "namespaceN = \<lparr>pos = 13, endPos = 33, nodeId = 31, flagExport = True,
                 modifiers = [\<lparr>pos = 13, endPos = 19\<rparr>], getText = ''export namespace N{}'',
                 info = ModuleDeclaration ''N''\<rparr>"

definition namespaceApp :: node where
  "namespaceApp = \<lparr>pos = 33, endPos = 55, nodeId = 32, flagExport = True,
                   modifiers = [\<lparr>pos = 33, endPos = 39\<rparr>],
                   getText = ''export namespace App{}'',
                   info = ModuleDeclaration ''App''\<rparr>"

definition fileN :: sourceFile where
  "fileN = \<lparr>fileName = ''n.ts'',
            fileText = ''export var c;export namespace N{}export namespace App{}'',
            isDeclarationFile = False, languageVariant = Standard,
            statements = [exportC, namespaceN, namespaceApp]\<rparr>"

definition feExt :: frontEnd where
  "feExt =
     \<lparr>getCanonicalFileName = (\<lambda>f. f),
      getSourceFile = [''c.ts'' \<mapsto> fileC, ''n.ts'' \<mapsto> fileN],
      getSourceFileDependencies =
        (\<lambda>f. if fileName f = ''c.ts'' then [(''m.d.ts'', [importM, importST])] else []),
      getExternalModuleName = (\<lambda>n. if isImportOrExport n then Some StringLiteral else None),
      getSymbolAtLocation =
        (\<lambda>n. if nodeId n = 20 \<or> nodeId n = 22 then Some symM else None)\<rparr>"

definition componentC :: Bundle where
  "componentC = \<lparr>bundleFilePath = ''out/c'', fileNames = [''c.ts''],
                 packageType = Component, packageNamespace = ''App''\<rparr>"
















text \<open>
  File \<^verbatim>\<open>x.ts\<close> is \<^verbatim>\<open>export import e=N.x;\<close>, an exported alias of a member of
  namespace \<^verbatim>\<open>N\<close>: an import-equals declaration with the \<^verbatim>\<open>Export\<close> flag, whose
  module reference is an entity name, not an external module.
\<close>

definition exportImport :: node where
  "exportImport = \<lparr>pos = 0, endPos = 20, nodeId = 50, flagExport = True,
                   modifiers = [\<lparr>pos = 0, endPos = 6\<rparr>], getText = ''export import e=N.x;'',
                   info = ImportEqualsDeclaration ''e'' (EntityName ''N.x'')\<rparr>"

definition fileX :: sourceFile where
  "fileX = \<lparr>fileName = ''x.ts'', fileText = ''export import e=N.x;'', isDeclarationFile = False,
            languageVariant = Standard, statements = [exportImport]\<rparr>"

definition feX :: frontEnd where
  "feX =
     \<lparr>getCanonicalFileName = (\<lambda>f. f),
      getSourceFile = [''x.ts'' \<mapsto> fileX],
      getSourceFileDependencies = (\<lambda>f. []),
      getExternalModuleName =
        (\<lambda>n. case info n of
               ImportDeclaration c t g \<Rightarrow> Some StringLiteral
             | ImportEqualsDeclaration nm (ExternalModuleReference t) \<Rightarrow> Some StringLiteral
             | _ \<Rightarrow> None),
      getSymbolAtLocation = (\<lambda>n. None)\<rparr>"

definition componentX :: Bundle where
  "componentX = \<lparr>bundleFilePath = ''out/x'', fileNames = [''x.ts''],
                 packageType = Component, packageNamespace = ''App''\<rparr>"

text \<open>
  File \<^verbatim>\<open>s.ts\<close> is \<^verbatim>\<open>import'q';S\<close>; module \<^verbatim>\<open>q\<close> is unknown to the type checker, and
  the dependency map of \<^verbatim>\<open>s.ts\<close> is empty.
\<close>

definition importQ0 :: node where
  "importQ0 = \<lparr>pos = 0, endPos = 10, nodeId = 70, flagExport = False, modifiers = [],
               getText = ''import'q';'',
               info = ImportDeclaration None ''q'' (CHR 0x27 # ''q'' @ [CHR 0x27])\<rparr>"

definition useS :: node where
  "useS = \<lparr>pos = 10, endPos = 11, nodeId = 71, flagExport = False, modifiers = [],
           getText = ''S'', info = OtherStatement\<rparr>"

definition fileS :: sourceFile where
  "fileS = \<lparr>fileName = ''s.ts'', fileText = ''import'q';S'', isDeclarationFile = False,
            languageVariant = Standard, statements = [importQ0, useS]\<rparr>"

definition feS :: frontEnd where
  "feS =
     \<lparr>getCanonicalFileName = (\<lambda>f. f),
      getSourceFile = [''s.ts'' \<mapsto> fileS],
      getSourceFileDependencies = (\<lambda>f. []),
      getExternalModuleName = (\<lambda>n. if isImportOrExport n then Some StringLiteral else None),
      getSymbolAtLocation = (\<lambda>n. None)\<rparr>"

definition componentS :: Bundle where
  "componentS = \<lparr>bundleFilePath = ''out/s'', fileNames = [''s.ts''],
                 packageType = Component, packageNamespace = ''App''\<rparr>"















text \<open>
  Three files without a cycle: \<^verbatim>\<open>g.ts\<close> is \<^verbatim>\<open>import'./h';G\<close>, \<^verbatim>\<open>h.ts\<close> is
  \<^verbatim>\<open>import'./k';H\<close> and \<^verbatim>\<open>k.ts\<close> is \<^verbatim>\<open>K\<close>. The dependency map of \<^verbatim>\<open>g.ts\<close> lists
  \<^verbatim>\<open>k.ts\<close> before \<^verbatim>\<open>h.ts\<close>.
\<close>

definition importH :: node where
  "importH = \<lparr>pos = 0, endPos = 12, nodeId = 80, flagExport = False, modifiers = [],
              getText = ''import'./h';'',
              info = ImportDeclaration None ''./h'' (CHR 0x27 # ''./h'' @ [CHR 0x27])\<rparr>"

definition useG :: node where
  "useG = \<lparr>pos = 12, endPos = 13, nodeId = 81, flagExport = False, modifiers = [],
           getText = ''G'', info = OtherStatement\<rparr>"

definition chainG :: sourceFile where
  "chainG = \<lparr>fileName = ''g.ts'', fileText = ''import'./h';G'', isDeclarationFile = False,
             languageVariant = Standard, statements = [importH, useG]\<rparr>"

definition importK :: node where
  "importK = \<lparr>pos = 0, endPos = 12, nodeId = 82, flagExport = False, modifiers = [],
              getText = ''import'./k';'',
              info = ImportDeclaration None ''./k'' (CHR 0x27 # ''./k'' @ [CHR 0x27])\<rparr>"

definition useH :: node where
  "useH = \<lparr>pos = 12, endPos = 13, nodeId = 83, flagExport = False, modifiers = [],
           getText = ''H'', info = OtherStatement\<rparr>"

definition chainH :: sourceFile where
  "chainH = \<lparr>fileName = ''h.ts'', fileText = ''import'./k';H'', isDeclarationFile = False,
             languageVariant = Standard, statements = [importK, useH]\<rparr>"

definition useK :: node where
  "useK = \<lparr>pos = 0, endPos = 1, nodeId = 84, flagExport = False, modifiers = [],
           getText = ''K'', info = OtherStatement\<rparr>"

definition chainK :: sourceFile where
  "chainK = \<lparr>fileName = ''k.ts'', fileText = ''K'', isDeclarationFile = False,
             languageVariant = Standard, statements = [useK]\<rparr>"

definition symChainH :: symbol where
  "symChainH = \<lparr>declKind = SourceFileKind, declAmbient = False, declSourceFile = chainH\<rparr>"

definition symChainK :: symbol where
  "symChainK = \<lparr>declKind = SourceFileKind, declAmbient = False, declSourceFile = chainK\<rparr>"

definition feChain :: frontEnd where
  "feChain =
     \<lparr>getCanonicalFileName = (\<lambda>f. f),
      getSourceFile = [''g.ts'' \<mapsto> chainG, ''h.ts'' \<mapsto> chainH, ''k.ts'' \<mapsto> chainK],
      getSourceFileDependencies =
        (\<lambda>f. if fileName f = ''g.ts''
             then [(''k.ts'', [importK]), (''h.ts'', [importH]), (''g.ts'', [])]
             else []),
      getExternalModuleName = (\<lambda>n. if isImportOrExport n then Some StringLiteral else None),
      getSymbolAtLocation =
        (\<lambda>n. if nodeId n = 80 then Some symChainH
             else if nodeId n = 82 then Some symChainK else None)\<rparr>"

definition componentG :: Bundle where
  "componentG = \<lparr>bundleFilePath = ''out/g'', fileNames = [''g.ts''],
                 packageType = Component, packageNamespace = ''App''\<rparr>"

text \<open>
  The same program with a dependency map that lists \<^verbatim>\<open>h.ts\<close> before \<^verbatim>\<open>k.ts\<close>, the
  dependent before its dependency.
\<close>

definition feChainR :: frontEnd where
  "feChainR =
     feChain\<lparr>getSourceFileDependencies :=
               (\<lambda>f. if fileName f = ''g.ts''
                    then [(''h.ts'', [importH]), (''k.ts'', [importK]), (''g.ts'', [])]
                    else [])\<rparr>"

section \<open>Span blanking keeps the length\<close>

lemma length_whiteOut:
  "p \<le> e \<Longrightarrow> e \<le> length txt \<Longrightarrow> length (whiteOut p e txt) = length txt"
  by (simp add: whiteOut_def)

lemma nth_whiteOut:
  assumes "p \<le> e" "e \<le> length txt" "i < length txt"
  shows "whiteOut p e txt ! i = (if p \<le> i \<and> i < e then CHR '' '' else txt ! i)"
  using assms by (auto simp: whiteOut_def nth_append min_def)

lemma processNode_cases:
  assumes "processNode fe b n t = Inr t'"
  shows "t' = t \<or> t' = whiteOut (pos n) (endPos n) t
         \<or> (\<exists>m ms. modifiers n = m # ms \<and> t' = whiteOut (pos m) (endPos m) t)"
  using assms
  by (auto simp: processNode_def whiteOutFirstModifier_def
      split: if_splits option.splits expressionKind.splits nodeInfo.splits list.splits)

lemma processNode_length:
  assumes "processNode fe b n t = Inr t'" and "nodeInRange (length t) n"
  shows "length t' = length t"
  using processNode_cases [OF assms(1)] assms(2)
  by (auto simp: nodeInRange_def length_whiteOut)

lemma processNodes_length:
  assumes "processNodes fe b ns t = Inr t'" and "list_all (nodeInRange (length t)) ns"
  shows "length t' = length t"
  using assms
proof (induction ns arbitrary: t)
  case Nil
  then show ?case by simp
next
  case (Cons n ns)
  from Cons.prems(1) obtain t1 where step: "processNode fe b n t = Inr t1"
    and rest: "processNodes fe b ns t1 = Inr t'"
    by (auto split: sum.splits)
  from step Cons.prems(2) have len: "length t1 = length t"
    by (auto intro: processNode_length)
  with Cons.prems(2) have "list_all (nodeInRange (length t1)) ns"
    by simp
  from Cons.IH [OF rest this] len show ?case by simp
qed

text \<open>
  Claim C3. For every text and every span of it (offsets \<open>p \<le> e \<le> length txt\<close>),
  \<^verbatim>\<open>whiteOut\<close> returns a text of the same length, in which every character inside the
  span is a space and every character outside it is the character of the input; and the
  edited body that \<^verbatim>\<open>processImportExports\<close> returns for a file whose spans lie inside its
  text has the length of the file's original text.
\<close>

theorem whiteOut_keeps_length:
  "(p \<le> e \<and> e \<le> length txt \<longrightarrow>
      length (whiteOut p e txt) = length txt \<and>
      (\<forall>i<length txt. whiteOut p e txt ! i = (if p \<le> i \<and> i < e then CHR '' '' else txt ! i)))
   \<and> (spansInRange file \<and> processImportExports fe b file = Inr editText \<longrightarrow>
        length editText = length (fileText file))"
  using processNodes_length [of fe b "statements file" "fileText file" editText]
  by (simp add: length_whiteOut nth_whiteOut spansInRange_def processImportExports_def)

theorem whiteOut_keeps_length_witness:
  "length (whiteOut 0 6 ''export class B{}'') = 16
   \<and> whiteOut 0 6 ''export class B{}'' ! 2 = CHR '' ''
   \<and> whiteOut 0 6 ''export class B{}'' ! 7 = CHR ''c''
   \<and> spansInRange fileB
   \<and> processImportExports feAB componentAB fileB = Inr ''       class B{}''
   \<and> length ''       class B{}'' = length (fileText fileB)"
proof -
  have h1: "(0::nat) \<le> 6 \<and> 6 \<le> length ''export class B{}''"
    by simp
  have h2: "spansInRange fileB"
    by code_simp
  have h3: "processImportExports feAB componentAB fileB = Inr ''       class B{}''"
    by code_simp
  from whiteOut_keeps_length
         [of 0 6 "''export class B{}''" fileB feAB componentAB "''       class B{}''"] h1 h2 h3
  have "length (whiteOut 0 6 ''export class B{}'') = length ''export class B{}''
     \<and> (\<forall>i<length ''export class B{}''. whiteOut 0 6 ''export class B{}'' ! i
           = (if 0 \<le> i \<and> i < 6 then CHR '' '' else ''export class B{}'' ! i))
     \<and> length ''       class B{}'' = length (fileText fileB)"
    by blast
  then have "length (whiteOut 0 6 ''export class B{}'') = 16
     \<and> whiteOut 0 6 ''export class B{}'' ! 2 = CHR '' ''
     \<and> whiteOut 0 6 ''export class B{}'' ! 7 = CHR ''c''
     \<and> length ''       class B{}'' = length (fileText fileB)"
    by simp
  with h2 h3 show ?thesis by blast
qed

section \<open>The result of a build\<close>

lemma buildFiles_failure_no_source:
  "buildFiles fe b es tsx s = Inr (Inl r) \<Longrightarrow> bundleSource r = None"
  by (induction es arbitrary: tsx s) (auto simp: Let_def split: option.splits sum.splits)

lemma buildFiles_append:
  "buildFiles fe b (pre @ rest) tsx s =
     (case buildFiles fe b pre tsx s of
        Inl e \<Rightarrow> Inl e
      | Inr (Inl r) \<Rightarrow> Inr (Inl r)
      | Inr (Inr (tsx', s')) \<Rightarrow> buildFiles fe b rest tsx' s')"
  by (induction pre arbitrary: tsx s) (auto simp: Let_def split: option.splits sum.splits)

lemma buildFiles_resolved:
  assumes "list_all (\<lambda>g. getSourceFile fe (getCanonicalFileName fe g) \<noteq> None) pre"
    and "\<not> throws (buildFiles fe b pre tsx s)"
  shows "\<exists>tsx' s'. buildFiles fe b pre tsx s = Inr (Inr (tsx', s'))"
  using assms
proof (induction pre arbitrary: tsx s)
  case Nil
  then show ?case by simp
next
  case (Cons a pre)
  from Cons.prems(1) obtain src where hfile: "getSourceFile fe (getCanonicalFileName fe a) = Some src"
    and rest: "list_all (\<lambda>g. getSourceFile fe (getCanonicalFileName fe g) \<noteq> None) pre"
    by auto
  from Cons.prems(2) hfile obtain s1 where
    w: "walkDependencies fe b (getSourceFileDependencies fe src) s = Inr s1"
    by (cases "walkDependencies fe b (getSourceFileDependencies fe src) s")
       (auto simp: Let_def throws_def)
  from Cons.prems(2) hfile w obtain s2 where
    a: "addSourceFile fe b src s1 = Inr s2"
    by (cases "addSourceFile fe b src s1") (auto simp: Let_def throws_def)
  from hfile w a have
    "buildFiles fe b (a # pre) tsx s =
       buildFiles fe b pre (if languageVariant src = JSX then True else tsx) s2"
    by (simp add: Let_def)
  with Cons.IH [OF rest, of "if languageVariant src = JSX then True else tsx" s2] Cons.prems(2)
  show ?case by simp
qed

text \<open>
  Claim C7, as the code has it. Under Library packaging the text of the bundle file is the
  preamble, then \<^verbatim>\<open>export namespace N {\<close> and a carriage return and line feed, then the
  concatenated edited bodies, then a space, a carriage return and line feed, and the
  closing brace.
\<close>

theorem library_wrapping:
  "packageType b = Library \<Longrightarrow>
   resultText (build fe b) =
     map_option (\<lambda>s. bundleImportText s @ ''export namespace '' @ packageNamespace b @ '' {'' @ CRLF
                       @ bundleCodeText s @ '' '' @ CRLF @ ''}'')
       (builtState fe b)"
  by (auto simp: resultText_def build_def builtState_def assemble_def Let_def
      dest: buildFiles_failure_no_source split: sum.splits)

theorem library_wrapping_witness:
  "packageType libraryA = Library \<and>
   resultText (build feAB libraryA) =
     Some (''export namespace Foo {'' @ CRLF @ ''export class B{}'' @ LF
           @ ''                   new B'' @ LF @ '' '' @ CRLF @ ''}'')"
proof -
  have h: "packageType libraryA = Library"
    by code_simp
  have e: "map_option (\<lambda>s. bundleImportText s @ ''export namespace '' @ packageNamespace libraryA @ '' {'' @ CRLF
                       @ bundleCodeText s @ '' '' @ CRLF @ ''}'')
       (builtState feAB libraryA) = Some (''export namespace Foo {'' @ CRLF @ ''export class B{}'' @ LF
           @ ''                   new B'' @ LF @ '' '' @ CRLF @ ''}'')"
    by code_simp
  from library_wrapping [OF h, of feAB] e h show ?thesis by simp
qed

text \<open>
  Claim C7 as stated fails: with namespace \<^verbatim>\<open>Foo\<close>, an empty preamble and the body of the
  bundle of \<^verbatim>\<open>a.ts\<close>, the text of the bundle file is not
  \<^verbatim>\<open>export namespace Foo {\n<body>\n}\<close>.
\<close>

theorem library_wrapping_counterexample:
  "bodyText feAB libraryA = Some (''export class B{}'' @ LF @ ''                   new B'' @ LF)
   \<and> preambleText feAB libraryA = Some []
   \<and> resultText (build feAB libraryA) \<noteq>
       Some ([] @ specifiedLibraryWrapping ''Foo''
               (''export class B{}'' @ LF @ ''                   new B'' @ LF))"
  by code_simp

text \<open>
  Claim C9 at the bundle whose only entry is \<^verbatim>\<open>a.ts\<close>: the dependency \<^verbatim>\<open>b.tsx\<close> is a
  JSX file and its body is part of the bundle, and the extension of the result is
  \<^verbatim>\<open>.ts\<close>. Only the language variant of the entry files is read.
\<close>

theorem dependency_tsx_ignored:
  "fileNames libraryA = [''a.ts'']
   \<and> getSourceFile feAB ''a.ts'' = Some fileA
   \<and> getSourceFileDependencies feAB fileA = [(''b.tsx'', [importB])]
   \<and> map_option declSourceFile (getSymbolFromNode feAB importB) = Some fileB
   \<and> languageVariant fileB = JSX
   \<and> bodyText feAB libraryA = Some (''export class B{}'' @ LF @ ''                   new B'' @ LF)
   \<and> resultExtension (build feAB libraryA) = Some ''.ts''"
  by code_simp

text \<open>
  Claim C1 at the bundle with the entries \<^verbatim>\<open>a.ts\<close> and \<^verbatim>\<open>b.tsx\<close>: the body of
  \<^verbatim>\<open>b.tsx\<close> is appended as a dependency of \<^verbatim>\<open>a.ts\<close> and a second time as an entry.
\<close>

theorem entry_emitted_twice:
  "fileNames componentAB = [''a.ts'', ''b.tsx'']
   \<and> getSourceFile feAB ''a.ts'' = Some fileA
   \<and> getSourceFile feAB ''b.tsx'' = Some fileB
   \<and> importsUnit feAB fileA fileB
   \<and> getSourceFileDependencies feAB fileA = [(''b.tsx'', [importB])]
   \<and> getSourceFileDependencies feAB fileB = []
   \<and> processImportExports feAB componentAB fileB = Inr ''       class B{}''
   \<and> processImportExports feAB componentAB fileA = Inr ''                   new B''
   \<and> bodyText feAB componentAB =
       Some (''       class B{}'' @ LF @ ''                   new B'' @ LF @ ''       class B{}'' @ LF)"
  by code_simp

text \<open>
  Claim C5. When an entry file cannot be resolved, and the entries before it are resolved
  and processed without an exception, \<^verbatim>\<open>build\<close> returns the status
  \<^verbatim>\<open>DiagnosticsPresent_OutputsSkipped\<close> with exactly one diagnostic, whose argument is the
  canonical name of the missing file, and no bundle file.
\<close>

theorem missing_entry_fails:
  assumes "fileNames b = pre @ f # post"
    and "list_all (\<lambda>g. getSourceFile fe (getCanonicalFileName fe g) \<noteq> None) pre"
    and "getSourceFile fe (getCanonicalFileName fe f) = None"
    and "\<not> throws (buildFiles fe b pre False initialState)"
  shows "build fe b =
           Inr \<lparr>status = DiagnosticsPresent_OutputsSkipped,
                errors = Some [sourceFileNotFound (getCanonicalFileName fe f)],
                bundleSource = None\<rparr>
         \<and> diagArguments (sourceFileNotFound (getCanonicalFileName fe f)) = [getCanonicalFileName fe f]
         \<and> resultText (build fe b) = None"
proof -
  from buildFiles_resolved [OF assms(2) assms(4)]
  obtain tsx' s' where pre: "buildFiles fe b pre False initialState = Inr (Inr (tsx', s'))"
    by blast
  have "buildFiles fe b (fileNames b) False initialState =
          Inr (Inl \<lparr>status = DiagnosticsPresent_OutputsSkipped,
                errors = Some [sourceFileNotFound (getCanonicalFileName fe f)],
                bundleSource = None\<rparr>)"
    using pre assms(3) by (simp add: assms(1) buildFiles_append)
  then show ?thesis
    by (simp add: build_def resultText_def sourceFileNotFound_def)
qed

theorem missing_entry_fails_witness:
  "fileNames componentMissing = [''a.ts''] @ ''missing.ts'' # [''b.tsx'']
   \<and> list_all (\<lambda>g. getSourceFile feAB (getCanonicalFileName feAB g) \<noteq> None) [''a.ts'']
   \<and> getSourceFile feAB (getCanonicalFileName feAB ''missing.ts'') = None
   \<and> \<not> throws (buildFiles feAB componentMissing [''a.ts''] False initialState)
   \<and> build feAB componentMissing =
           Inr \<lparr>status = DiagnosticsPresent_OutputsSkipped,
                errors = Some [sourceFileNotFound ''missing.ts''],
                bundleSource = None\<rparr>
   \<and> diagArguments (sourceFileNotFound ''missing.ts'') = [''missing.ts'']
   \<and> resultText (build feAB componentMissing) = None"
proof -
  have h1: "fileNames componentMissing = [''a.ts''] @ ''missing.ts'' # [''b.tsx'']"
    by code_simp
  have h2: "list_all (\<lambda>g. getSourceFile feAB (getCanonicalFileName feAB g) \<noteq> None) [''a.ts'']"
    by code_simp
  have h3: "getSourceFile feAB (getCanonicalFileName feAB ''missing.ts'') = None"
    by code_simp
  have h4: "\<not> throws (buildFiles feAB componentMissing [''a.ts''] False initialState)"
    by code_simp
  have c: "getCanonicalFileName feAB ''missing.ts'' = ''missing.ts''"
    by code_simp
  from missing_entry_fails [OF h1 h2 h3 h4] h1 h2 h3 h4 show ?thesis
    unfolding c by blast
qed

section \<open>Imports without an import clause\<close>

text \<open>
  Claim C10, amended. For an import declaration without import clause,
  \<^verbatim>\<open>writeImportDeclaration\<close> returns the state as it is: nothing is written to the
  preamble and nothing is registered. When the specifier resolves to a symbol that is not
  a code module, the step of the dependency walk returns normally with the state
  unchanged and the statement is blanked in the body of its unit. When the specifier
  resolves to no symbol, the statement is left in the body of its unit as it is, and the
  step of the dependency walk for the node throws.
\<close>

theorem clauseless_import_dropped_when_resolved:
  assumes "info n = ImportDeclaration None moduleName specifierText"
  shows "writeImportDeclaration n s = s
         \<and> (\<forall>importSymbol.
               getSymbolFromNode fe n = Some importSymbol \<and> \<not> isCodeModule importSymbol
               \<longrightarrow> walkImportNode fe b n s = Inr s
                   \<and> processNode fe b n editText = Inr (whiteOut (pos n) (endPos n) editText))
         \<and> (getSymbolFromNode fe n = None
               \<longrightarrow> processNode fe b n editText = Inr editText
                   \<and> walkImportNode fe b n s = Inl TypeError)"
  using assms
  by (auto simp: writeImportDeclaration_def walkImportNode_def processNode_def
      isImportOrExport_def getSymbolFromNode_def split: option.splits expressionKind.splits)

theorem clauseless_import_dropped_when_resolved_witness:
  "info importM = ImportDeclaration None ''m'' (CHR 0x27 # ''m'' @ [CHR 0x27])
   \<and> getSymbolFromNode feExt importM = Some symM
   \<and> \<not> isCodeModule symM
   \<and> writeImportDeclaration importM initialState = initialState
   \<and> walkImportNode feExt componentC importM initialState = Inr initialState
   \<and> processNode feExt componentC importM (fileText fileC)
       = Inr ''          import x from'q';import{r as s,t}from'm';''
   \<and> info importQ0 = ImportDeclaration None ''q'' (CHR 0x27 # ''q'' @ [CHR 0x27])
   \<and> getSymbolFromNode feS importQ0 = None
   \<and> writeImportDeclaration importQ0 initialState = initialState
   \<and> processNode feS componentS importQ0 (fileText fileS) = Inr (fileText fileS)
   \<and> walkImportNode feS componentS importQ0 initialState = Inl TypeError"
proof -
  have h1: "info importM = ImportDeclaration None ''m'' (CHR 0x27 # ''m'' @ [CHR 0x27])"
    by code_simp
  have h2: "getSymbolFromNode feExt importM = Some symM"
    by code_simp
  have h3: "\<not> isCodeModule symM"
    by code_simp
  have e: "whiteOut (pos importM) (endPos importM) (fileText fileC)
            = ''          import x from'q';import{r as s,t}from'm';''"
    by code_simp
  have k1: "info importQ0 = ImportDeclaration None ''q'' (CHR 0x27 # ''q'' @ [CHR 0x27])"
    by code_simp
  have k2: "getSymbolFromNode feS importQ0 = None"
    by code_simp
  from clauseless_import_dropped_when_resolved
         [OF h1, of initialState feExt componentC "fileText fileC"] h2 h3
  have a: "writeImportDeclaration importM initialState = initialState
           \<and> walkImportNode feExt componentC importM initialState = Inr initialState
           \<and> processNode feExt componentC importM (fileText fileC)
               = Inr ''          import x from'q';import{r as s,t}from'm';''"
    unfolding e by blast
  from clauseless_import_dropped_when_resolved
         [OF k1, of initialState feS componentS "fileText fileS"] k2
  have c: "writeImportDeclaration importQ0 initialState = initialState
           \<and> processNode feS componentS importQ0 (fileText fileS) = Inr (fileText fileS)
           \<and> walkImportNode feS componentS importQ0 initialState = Inl TypeError"
    by blast
  from a c h1 h2 h3 k1 k2 show ?thesis by blast
qed

text \<open>
  Claim C10 as stated fails at \<^verbatim>\<open>s.ts\<close>: the import \<^verbatim>\<open>import'q';\<close> has no import
  clause and is classified External, and it is not dropped: the body of the unit and the
  bundle keep the statement. A dependency walk that is handed the node throws.
\<close>

theorem unresolved_clauseless_import_kept_counterexample:
  "info importQ0 = ImportDeclaration None ''q'' (CHR 0x27 # ''q'' @ [CHR 0x27])
   \<and> classify feS importQ0 = External
   \<and> fileNames componentS = [''s.ts'']
   \<and> getSourceFile feS ''s.ts'' = Some fileS
   \<and> statements fileS = [importQ0, useS]
   \<and> getSourceFileDependencies feS fileS = []
   \<and> processImportExports feS componentS fileS = Inr ''import'q';S''
   \<and> resultText (build feS componentS) = Some (''import'q';S'' @ LF)
   \<and> throws (walkImportNode feS componentS importQ0 initialState)"
  by code_simp

section \<open>What is blanked in the body of a unit\<close>

lemma processNode_keeps_space:
  assumes "processNode fe b n t = Inr t'" and "nodeInRange (length t) n"
    and "i < length t" and "t ! i = CHR '' ''"
  shows "t' ! i = CHR '' ''"
  using processNode_cases [OF assms(1)] assms(2-4)
  by (auto simp: nodeInRange_def nth_whiteOut)

lemma processNodes_keeps_space:
  assumes "processNodes fe b ns t = Inr t'" and "list_all (nodeInRange (length t)) ns"
    and "i < length t" and "t ! i = CHR '' ''"
  shows "t' ! i = CHR '' ''"
  using assms
proof (induction ns arbitrary: t)
  case Nil
  then show ?case by simp
next
  case (Cons n ns)
  from Cons.prems(1) obtain t1 where step: "processNode fe b n t = Inr t1"
    and rest: "processNodes fe b ns t1 = Inr t'"
    by (auto split: sum.splits)
  from Cons.prems(2) have rn: "nodeInRange (length t) n" by simp
  have len: "length t1 = length t"
    by (rule processNode_length [OF step rn])
  have sp: "t1 ! i = CHR '' ''"
    by (rule processNode_keeps_space [OF step rn Cons.prems(3) Cons.prems(4)])
  from Cons.prems(2) len have "list_all (nodeInRange (length t1)) ns" by simp
  from Cons.IH [OF rest this] Cons.prems(3) len sp show ?case by simp
qed

lemma processNodes_blanks:
  assumes "n \<in> set ns" and "processNodes fe b ns t = Inr t'"
    and "list_all (nodeInRange (length t)) ns"
    and "\<And>u. processNode fe b n u = Inr (whiteOut p e u)"
    and "p \<le> e" and "e \<le> length t" and "p \<le> i" and "i < e"
  shows "t' ! i = CHR '' ''"
  using assms(1-3,6)
proof (induction ns arbitrary: t)
  case Nil
  then show ?case by simp
next
  case (Cons a ns)
  from Cons.prems(2) obtain t1 where step: "processNode fe b a t = Inr t1"
    and rest: "processNodes fe b ns t1 = Inr t'"
    by (auto split: sum.splits)
  from Cons.prems(3) have ra: "nodeInRange (length t) a" by simp
  have len: "length t1 = length t"
    by (rule processNode_length [OF step ra])
  from Cons.prems(3) len have rs: "list_all (nodeInRange (length t1)) ns" by simp
  have i: "i < length t" using assms(8) Cons.prems(4) by simp
  show ?case
  proof (cases "a = n")
    case True
    with step assms(4) have "t1 = whiteOut p e t" by simp
    with assms(5,7,8) Cons.prems(4) i have "t1 ! i = CHR '' ''"
      by (simp add: nth_whiteOut)
    with processNodes_keeps_space [OF rest rs] i len show ?thesis by simp
  next
    case False
    with Cons.prems(1) have "n \<in> set ns" by simp
    from Cons.IH [OF this rest rs] Cons.prems(4) len show ?thesis by simp
  qed
qed

lemma processNodes_untouched:
  assumes "processNodes fe b ns t = Inr t'" and "list_all (nodeInRange (length t)) ns"
    and "i < length t"
    and "\<And>a u u'. a \<in> set ns \<Longrightarrow> length u = length t \<Longrightarrow> processNode fe b a u = Inr u'
            \<Longrightarrow> u' ! i = u ! i"
  shows "t' ! i = t ! i"
  using assms
proof (induction ns arbitrary: t)
  case Nil
  then show ?case by simp
next
  case (Cons a ns)
  from Cons.prems(1) obtain t1 where step: "processNode fe b a t = Inr t1"
    and rest: "processNodes fe b ns t1 = Inr t'"
    by (auto split: sum.splits)
  from Cons.prems(2) have ra: "nodeInRange (length t) a" by simp
  have len: "length t1 = length t"
    by (rule processNode_length [OF step ra])
  from Cons.prems(2) len have rs: "list_all (nodeInRange (length t1)) ns" by simp
  have one: "t1 ! i = t ! i"
    using Cons.prems(4) [of a t t1] step by simp
  have "t' ! i = t1 ! i"
  proof (rule Cons.IH [OF rest rs])
    show "i < length t1" using Cons.prems(3) len by simp
  next
    fix a' u u'
    assume "a' \<in> set ns" "length u = length t1" "processNode fe b a' u = Inr u'"
    with Cons.prems(4) [of a' u u'] len show "u' ! i = u ! i" by simp
  qed
  with one show ?case by simp
qed

text \<open>A node apart from n leaves the positions of n alone.\<close>

lemma processNode_apart:
  assumes "processNode fe b a u = Inr u'" and "nodeInRange (length u) a"
    and "modifiersInside a" and "endPos a \<le> pos n \<or> endPos n \<le> pos a"
    and "pos n \<le> i" and "i < endPos n" and "i < length u"
  shows "u' ! i = u ! i"
  using processNode_cases [OF assms(1)] assms(2-)
  by (auto simp: nodeInRange_def modifiersInside_def nth_whiteOut)

lemma import_step_blanks:
  assumes "isImportOrExport n" and "getSymbolFromNode fe n = Some importSymbol"
  shows "processNode fe b n u = Inr (whiteOut (pos n) (endPos n) u)"
  using assms
  by (auto simp: processNode_def getSymbolFromNode_def split: option.splits expressionKind.splits)

lemma import_step_skips:
  assumes "isImportOrExport n" and "getSymbolFromNode fe n = None"
  shows "processNode fe b n u = Inr u"
  using assms
  by (auto simp: processNode_def getSymbolFromNode_def split: option.splits expressionKind.splits)

lemma export_step_blanks:
  assumes "packageType b = Component" and "exportStripped b n" and "flagExport n"
    and "modifiers n = m # ms"
  shows "processNode fe b n u = Inr (whiteOut (pos m) (endPos m) u)"
  using assms
  by (auto simp: processNode_def exportStripped_def isImportOrExport_def whiteOutFirstModifier_def
      split: nodeInfo.splits)

lemma statements_in_range:
  assumes "spansInRange file" and "n \<in> set (statements file)"
  shows "nodeInRange (length (fileText file)) n"
  using assms by (simp add: spansInRange_def list_all_iff)

lemma statements_apart:
  assumes "nodesApart file" and "n \<in> set (statements file)" and "a \<in> set (statements file)"
  shows "modifiersInside a \<and> apart n a"
  using assms by (simp add: nodesApart_def list_all_iff)

text \<open>
  Claim C8, amended. Under Component packaging, for a top-level namespace or module declaration
  whose name differs from the configured namespace, and for any other top-level
  declaration that is not an import or export statement, when the node has the
  \<^verbatim>\<open>Export\<close> flag: the step of the node blanks exactly the span of its export modifier
  (\<^verbatim>\<open>modifiers[0]\<close>), that span is blank in the edited body, and, the top-level nodes
  not overlapping, the rest of the declaration's text is unchanged in the edited body.
\<close>

theorem component_strips_export_modifier:
  assumes "packageType b = Component" and "spansInRange file"
    and "processImportExports fe b file = Inr editText"
    and "n \<in> set (statements file)" and "exportStripped b n" and "flagExport n"
    and "modifiers n = m # ms"
  shows "(\<forall>u. processNode fe b n u = Inr (whiteOut (pos m) (endPos m) u))
       \<and> (\<forall>i. pos m \<le> i \<and> i < endPos m \<longrightarrow> editText ! i = CHR '' '')
       \<and> (nodesApart file \<longrightarrow>
            (\<forall>i. pos n \<le> i \<and> i < endPos n \<and> \<not> (pos m \<le> i \<and> i < endPos m)
                   \<longrightarrow> editText ! i = fileText file ! i))"
proof -
  have step: "processNode fe b n u = Inr (whiteOut (pos m) (endPos m) u)" for u
    by (rule export_step_blanks [OF assms(1) assms(5) assms(6) assms(7)])
  have rn: "nodeInRange (length (fileText file)) n"
    by (rule statements_in_range [OF assms(2) assms(4)])
  with assms(7) have m: "pos m \<le> endPos m" "endPos m \<le> length (fileText file)"
    by (simp_all add: nodeInRange_def)
  from assms(2) have all: "list_all (nodeInRange (length (fileText file))) (statements file)"
    by (simp add: spansInRange_def)
  from assms(3) have run: "processNodes fe b (statements file) (fileText file) = Inr editText"
    by (simp add: processImportExports_def)
  have blank: "editText ! i = CHR '' ''" if "pos m \<le> i" "i < endPos m" for i
    by (rule processNodes_blanks [OF assms(4) run all step m that])
  have rest: "editText ! i = fileText file ! i"
    if ap: "nodesApart file" and i: "pos n \<le> i" "i < endPos n" "\<not> (pos m \<le> i \<and> i < endPos m)" for i
  proof (rule processNodes_untouched [OF run all])
    from i rn show il: "i < length (fileText file)" by (simp add: nodeInRange_def)
    fix a u u'
    assume a: "a \<in> set (statements file)" and lu: "length u = length (fileText file)"
      and pa: "processNode fe b a u = Inr u'"
    show "u' ! i = u ! i"
    proof (cases "a = n")
      case True
      with pa step have "u' = whiteOut (pos m) (endPos m) u" by simp
      with m i lu il show ?thesis by (auto simp: nth_whiteOut)
    next
      case False
      from statements_apart [OF ap assms(4) a] False
      have "modifiersInside a" "endPos a \<le> pos n \<or> endPos n \<le> pos a"
        by (auto simp: apart_def)
      moreover from statements_in_range [OF assms(2) a] lu have "nodeInRange (length u) a"
        by simp
      ultimately show ?thesis
        using pa i il lu by (intro processNode_apart [of fe b a u u' n i]) simp_all
    qed
  qed
  from step blank rest show ?thesis by blast
qed

theorem component_strips_export_modifier_witness:
  "packageType componentC = Component
   \<and> spansInRange fileN
   \<and> processImportExports feExt componentC fileN
        = Inr ''       var c;       namespace N{}export namespace App{}''
   \<and> namespaceN \<in> set (statements fileN)
   \<and> exportStripped componentC namespaceN
   \<and> flagExport namespaceN
   \<and> modifiers namespaceN = [\<lparr>pos = 13, endPos = 19\<rparr>]
   \<and> nodesApart fileN
   \<and> (\<forall>u. processNode feExt componentC namespaceN u = Inr (whiteOut 13 19 u))
   \<and> ''       var c;       namespace N{}export namespace App{}'' ! 15 = CHR '' ''
   \<and> ''       var c;       namespace N{}export namespace App{}'' ! 25 = fileText fileN ! 25"
proof -
  let ?E = "''       var c;       namespace N{}export namespace App{}''"
  have h1: "packageType componentC = Component" by code_simp
  have h2: "spansInRange fileN" by code_simp
  have h3: "processImportExports feExt componentC fileN = Inr ?E" by code_simp
  have h4: "namespaceN \<in> set (statements fileN)" by code_simp
  have h5: "exportStripped componentC namespaceN" by code_simp
  have h6: "flagExport namespaceN" by code_simp
  have h7: "modifiers namespaceN = [\<lparr>pos = 13, endPos = 19\<rparr>]" by code_simp
  have h8: "nodesApart fileN" by code_simp
  have p: "pos namespaceN = 13" "endPos namespaceN = 33"
    "pos \<lparr>pos = 13, endPos = 19\<rparr> = 13" "endPos \<lparr>pos = 13, endPos = 19\<rparr> = 19"
    by code_simp+
  note t = component_strips_export_modifier [OF h1 h2 h3 h4 h5 h6 h7, unfolded p]
  from t have a: "\<forall>u. processNode feExt componentC namespaceN u = Inr (whiteOut 13 19 u)"
    by blast
  from t have "(13::nat) \<le> 15 \<and> (15::nat) < 19 \<longrightarrow> ?E ! 15 = CHR '' ''"
    by blast
  then have b: "?E ! 15 = CHR '' ''" by simp
  from t h8 have "(13::nat) \<le> 25 \<and> (25::nat) < 33 \<and> \<not> ((13::nat) \<le> 25 \<and> (25::nat) < 19)
      \<longrightarrow> ?E ! 25 = fileText fileN ! 25"
    by blast
  then have c: "?E ! 25 = fileText fileN ! 25" by simp
  from h1 h2 h3 h4 h5 h6 h7 h8 a b c show ?thesis by blast
qed

text \<open>
  Claim C8 as stated fails at \<^verbatim>\<open>x.ts\<close> under Component packaging: the top-level
  declaration \<^verbatim>\<open>export import e=N.x;\<close> carries an export modifier and is not a namespace
  or module declaration, and its modifier is not blanked: import and export statements
  take the first branch of \<^verbatim>\<open>processImportExports\<close>, and the export-modifier policy is
  in the other one.
\<close>

theorem exported_import_alias_kept_counterexample:
  "packageType componentX = Component
   \<and> fileNames componentX = [''x.ts'']
   \<and> getSourceFile feX ''x.ts'' = Some fileX
   \<and> statements fileX = [exportImport]
   \<and> info exportImport = ImportEqualsDeclaration ''e'' (EntityName ''N.x'')
   \<and> flagExport exportImport
   \<and> modifiers exportImport = [\<lparr>pos = 0, endPos = 6\<rparr>]
   \<and> \<not> exportStripped componentX exportImport
   \<and> processNode feX componentX exportImport (fileText fileX) = Inr ''export import e=N.x;''
   \<and> processImportExports feX componentX fileX = Inr ''export import e=N.x;''
   \<and> resultText (build feX componentX) = Some (''export import e=N.x;'' @ LF)"
  by code_simp

text \<open>
  Claim C6, as the code has it. Under every packaging type, a top-level import or export
  node whose module specifier is a string literal that resolves to a symbol has its span
  blanked in the edited body; this covers the Internal and the ambient references and the
  External ones that have a symbol. A node without literal specifier or without symbol
  (External as well) is left as it is: its step returns the text unchanged, and, the
  top-level nodes not overlapping, its span in the edited body is the original text.
\<close>

theorem resolved_imports_blanked:
  assumes "spansInRange file" and "processImportExports fe b file = Inr editText"
    and "n \<in> set (statements file)" and "isImportOrExport n"
  shows "(classify fe n = Internal \<or> classify fe n = AmbientDeclaration
            \<or> getSymbolFromNode fe n \<noteq> None
          \<longrightarrow> (\<forall>i. pos n \<le> i \<and> i < endPos n \<longrightarrow> editText ! i = CHR '' ''))
       \<and> (getSymbolFromNode fe n = None
          \<longrightarrow> (\<forall>u. processNode fe b n u = Inr u)
              \<and> (nodesApart file \<longrightarrow>
                   (\<forall>i. pos n \<le> i \<and> i < endPos n \<longrightarrow> editText ! i = fileText file ! i)))"
proof -
  have rn: "nodeInRange (length (fileText file)) n"
    by (rule statements_in_range [OF assms(1) assms(3)])
  from assms(1) have all: "list_all (nodeInRange (length (fileText file))) (statements file)"
    by (simp add: spansInRange_def)
  from assms(2) have run: "processNodes fe b (statements file) (fileText file) = Inr editText"
    by (simp add: processImportExports_def)
  have resolved: "getSymbolFromNode fe n \<noteq> None"
    if "classify fe n = Internal \<or> classify fe n = AmbientDeclaration
          \<or> getSymbolFromNode fe n \<noteq> None"
    using that by (auto simp: classify_def split: option.splits)
  have blank: "editText ! i = CHR '' ''"
    if r: "getSymbolFromNode fe n \<noteq> None" and i: "pos n \<le> i" "i < endPos n" for i
  proof -
    from r obtain importSymbol where sy: "getSymbolFromNode fe n = Some importSymbol" by auto
    have step: "processNode fe b n u = Inr (whiteOut (pos n) (endPos n) u)" for u
      by (rule import_step_blanks [OF assms(4) sy])
    from rn have "pos n \<le> endPos n" "endPos n \<le> length (fileText file)"
      by (simp_all add: nodeInRange_def)
    from processNodes_blanks [OF assms(3) run all step this i] show ?thesis .
  qed
  have skip: "processNode fe b n u = Inr u" if "getSymbolFromNode fe n = None" for u
    by (rule import_step_skips [OF assms(4) that])
  have rest: "editText ! i = fileText file ! i"
    if un: "getSymbolFromNode fe n = None" and ap: "nodesApart file"
      and i: "pos n \<le> i" "i < endPos n" for i
  proof (rule processNodes_untouched [OF run all])
    from i rn show il: "i < length (fileText file)" by (simp add: nodeInRange_def)
    fix a u u'
    assume a: "a \<in> set (statements file)" and lu: "length u = length (fileText file)"
      and pa: "processNode fe b a u = Inr u'"
    show "u' ! i = u ! i"
    proof (cases "a = n")
      case True
      with pa skip [OF un] show ?thesis by simp
    next
      case False
      from statements_apart [OF ap assms(3) a] False
      have "modifiersInside a" "endPos a \<le> pos n \<or> endPos n \<le> pos a"
        by (auto simp: apart_def)
      moreover from statements_in_range [OF assms(1) a] lu have "nodeInRange (length u) a"
        by simp
      ultimately show ?thesis
        using pa i il lu by (intro processNode_apart [of fe b a u u' n i]) simp_all
    qed
  qed
  from resolved blank skip rest show ?thesis by blast
qed

theorem resolved_imports_blanked_witness:
  "spansInRange fileC
   \<and> nodesApart fileC
   \<and> processImportExports feExt componentC fileC
        = Inr ''          import x from'q';                        ''
   \<and> importST \<in> set (statements fileC) \<and> isImportOrExport importST
   \<and> classify feExt importST = AmbientDeclaration
   \<and> ''          import x from'q';                        '' ! 30 = CHR '' ''
   \<and> importQ \<in> set (statements fileC) \<and> isImportOrExport importQ
   \<and> getSymbolFromNode feExt importQ = None
   \<and> (\<forall>u. processNode feExt componentC importQ u = Inr u)
   \<and> ''          import x from'q';                        '' ! 12 = fileText fileC ! 12"
proof -
  let ?E = "''          import x from'q';                        ''"
  have h1: "spansInRange fileC" by code_simp
  have h2: "processImportExports feExt componentC fileC = Inr ?E" by code_simp
  have h3: "importST \<in> set (statements fileC)" by code_simp
  have h4: "isImportOrExport importST" by code_simp
  have h5: "classify feExt importST = AmbientDeclaration" by code_simp
  have h6: "importQ \<in> set (statements fileC)" by code_simp
  have h7: "isImportOrExport importQ" by code_simp
  have h8: "getSymbolFromNode feExt importQ = None" by code_simp
  have h9: "nodesApart fileC" by code_simp
  have p: "pos importST = 27" "endPos importST = 51" "pos importQ = 10" "endPos importQ = 27"
    by code_simp+
  from resolved_imports_blanked [OF h1 h2 h3 h4, unfolded p] h5
  have "(27::nat) \<le> 30 \<and> (30::nat) < 51 \<longrightarrow> ?E ! 30 = CHR '' ''"
    by blast
  then have a: "?E ! 30 = CHR '' ''" by simp
  note t = resolved_imports_blanked [OF h1 h2 h6 h7, unfolded p]
  from t h8 have b: "\<forall>u. processNode feExt componentC importQ u = Inr u"
    by blast
  from t h8 h9 have "(10::nat) \<le> 12 \<and> (12::nat) < 27 \<longrightarrow> ?E ! 12 = fileText fileC ! 12"
    by blast
  then have c: "?E ! 12 = fileText fileC ! 12" by simp
  from h1 h2 h3 h4 h5 h6 h7 h8 h9 a b c show ?thesis by blast
qed

text \<open>
  Claim C6 as stated fails: the import of the unknown module \<^verbatim>\<open>q\<close> in \<^verbatim>\<open>c.ts\<close> is an
  External reference, and its span is not blanked in the edited body of \<^verbatim>\<open>c.ts\<close>.
\<close>

theorem external_import_kept_counterexample:
  "importQ \<in> set (statements fileC)
   \<and> isImportOrExport importQ
   \<and> classify feExt importQ = External
   \<and> processImportExports feExt componentC fileC
       = Inr ''          import x from'q';                        ''
   \<and> ''          import x from'q';                        '' ! pos importQ \<noteq> CHR '' ''"
  by code_simp

section \<open>Registering external imports\<close>

lemma addModuleImport_fst: "fst (addModuleImport m x s) = (\<not> registered s m x)"
  by (simp add: addModuleImport_def registered_def Let_def split: option.splits)

lemma addModuleImport_frame:
  "bundleCodeText (snd (addModuleImport m x s)) = bundleCodeText s"
  "bundleImportText (snd (addModuleImport m x s)) = bundleImportText s"
  "bundleImportedFiles (snd (addModuleImport m x s)) = bundleImportedFiles s"
  "bundleSourceFiles (snd (addModuleImport m x s)) = bundleSourceFiles s"
  by (simp_all add: addModuleImport_def Let_def split: option.splits)

lemma addModuleImport_again:
  "registered s m x \<Longrightarrow> snd (addModuleImport m x s) = s"
  by (auto simp: addModuleImport_def storeModuleImports_def registered_def Let_def
        fun_upd_idem split: option.splits)

lemma writeElement_eq:
  "writeElement m element (w, h, s) =
     (if registered s m (elementName element)
      then (w, h, snd (addModuleImport m (elementName element) s))
      else ((case propertyName element of
               Some alias \<Rightarrow> (if \<not> h then w else w @ '', '') @ alias @ '' as '' @ elementName element
             | None \<Rightarrow> (if \<not> h then w else w @ '', '') @ elementName element),
            True, snd (addModuleImport m (elementName element) s)))"
  using addModuleImport_fst [of m "elementName element" s]
  by (cases "addModuleImport m (elementName element) s")
     (auto simp: writeElement_def Let_def split: option.splits)

lemma writeDefaultBinding_eq:
  "writeDefaultBinding m nm s =
     (case nm of
        None \<Rightarrow> (''import '', False, s)
      | Some t \<Rightarrow>
          if registered s m t then (''import '', False, snd (addModuleImport m t s))
          else (''import '' @ t, True, snd (addModuleImport m t s)))"
proof (cases nm)
  case None
  then show ?thesis by (simp add: writeDefaultBinding_def)
next
  case (Some t)
  with addModuleImport_fst [of m t s] show ?thesis
    by (cases "addModuleImport m t s") (auto simp: writeDefaultBinding_def)
qed

lemma writeDefaultBinding_state:
  "snd (snd (writeDefaultBinding m nm s))
     = (case nm of None \<Rightarrow> s | Some t \<Rightarrow> snd (addModuleImport m t s))"
  by (simp add: writeDefaultBinding_eq split: option.splits)

lemma writeElements_frame:
  "bundleCodeText (snd (snd (writeElements m es (w, h, s)))) = bundleCodeText s
   \<and> bundleImportText (snd (snd (writeElements m es (w, h, s)))) = bundleImportText s
   \<and> bundleImportedFiles (snd (snd (writeElements m es (w, h, s)))) = bundleImportedFiles s
   \<and> bundleSourceFiles (snd (snd (writeElements m es (w, h, s)))) = bundleSourceFiles s"
  by (induction es arbitrary: w h s)
     (simp_all add: writeElement_eq addModuleImport_frame)

lemma writeNamedBindings_eq:
  "writeNamedBindings m nb hdef w s =
     (case nb of
        None \<Rightarrow> (w, False, s)
      | Some (NamespaceImport t) \<Rightarrow>
          if registered s m t then (w, False, snd (addModuleImport m t s))
          else ((if hdef then w @ '', '' else w) @ ''* as '' @ t, True, snd (addModuleImport m t s))
      | Some (NamedImports es) \<Rightarrow>
          (fst (writeElements m es ((if hdef then w @ '', '' else w) @ ''{ '', False, s)) @ '' }'',
           snd (writeElements m es ((if hdef then w @ '', '' else w) @ ''{ '', False, s))))"
proof (cases nb)
  case None
  then show ?thesis by (simp add: writeNamedBindings_def)
next
  case (Some a)
  show ?thesis
  proof (cases a)
    case (NamespaceImport t)
    with Some addModuleImport_fst [of m t s] show ?thesis
      by (cases "addModuleImport m t s") (auto simp: writeNamedBindings_def)
  next
    case (NamedImports es)
    with Some show ?thesis
      by (simp add: writeNamedBindings_def split: prod.splits)
  qed
qed

lemma writeNamedBindings_frame:
  "bundleCodeText (snd (snd (writeNamedBindings m nb hdef w s))) = bundleCodeText s
   \<and> bundleImportText (snd (snd (writeNamedBindings m nb hdef w s))) = bundleImportText s
   \<and> bundleImportedFiles (snd (snd (writeNamedBindings m nb hdef w s))) = bundleImportedFiles s
   \<and> bundleSourceFiles (snd (snd (writeNamedBindings m nb hdef w s))) = bundleSourceFiles s"
  by (simp add: writeNamedBindings_eq writeElements_frame addModuleImport_frame
      split: option.splits namedBindings.splits)

lemma writeDefaultBinding_frame:
  "bundleCodeText (snd (snd (writeDefaultBinding m nm s))) = bundleCodeText s
   \<and> bundleImportText (snd (snd (writeDefaultBinding m nm s))) = bundleImportText s
   \<and> bundleImportedFiles (snd (snd (writeDefaultBinding m nm s))) = bundleImportedFiles s
   \<and> bundleSourceFiles (snd (snd (writeDefaultBinding m nm s))) = bundleSourceFiles s"
  by (simp add: writeDefaultBinding_state addModuleImport_frame split: option.splits)

lemma writeImportDeclaration_eq:
  assumes "info n = ImportDeclaration (Some clause) m g"
  shows "writeImportDeclaration n s =
     (let r0 = writeDefaultBinding m (clauseName clause) s;
          r1 = writeNamedBindings m (clauseBindings clause) (fst (snd r0)) (fst r0) (snd (snd r0))
      in if fst (snd r0) \<or> fst (snd r1)
         then emitModuleImportDeclaration (fst r1 @ '' from '' @ g @ '';'') (snd (snd r1))
         else snd (snd r1))"
proof -
  obtain w0 h0 s0 where r0: "writeDefaultBinding m (clauseName clause) s = (w0, h0, s0)"
    by (cases "writeDefaultBinding m (clauseName clause) s") auto
  obtain w1 h1 s1 where r1: "writeNamedBindings m (clauseBindings clause) h0 w0 s0 = (w1, h1, s1)"
    by (cases "writeNamedBindings m (clauseBindings clause) h0 w0 s0") auto
  from assms r0 r1 show ?thesis
    by (cases h0) (simp_all add: writeImportDeclaration_def Let_def)
qed

lemma writeImportDeclaration_frame:
  "bundleCodeText (writeImportDeclaration n s) = bundleCodeText s
   \<and> bundleImportedFiles (writeImportDeclaration n s) = bundleImportedFiles s
   \<and> bundleSourceFiles (writeImportDeclaration n s) = bundleSourceFiles s"
proof (cases "\<exists>clause m g. info n = ImportDeclaration (Some clause) m g")
  case True
  then obtain clause m g where i: "info n = ImportDeclaration (Some clause) m g" by blast
  show ?thesis
    by (simp add: writeImportDeclaration_eq [OF i] Let_def emitModuleImportDeclaration_def
        writeNamedBindings_frame writeDefaultBinding_frame)
next
  case False
  then have "writeImportDeclaration n s = s"
    by (auto simp: writeImportDeclaration_def split: nodeInfo.splits option.splits)
  then show ?thesis by simp
qed

lemma walkImportNode_external_equals:
  assumes "info n = ImportEqualsDeclaration x r" and "getSymbolFromNode fe n = Some importSymbol"
    and "\<not> isCodeModule importSymbol"
  shows "walkImportNode fe b n s =
           Inr (if registered s (getImportModuleName r) x then s
                else emitModuleImportDeclaration (getText n)
                       (snd (addModuleImport (getImportModuleName r) x s)))"
  using assms addModuleImport_fst [of "getImportModuleName r" x s]
    addModuleImport_again [of s "getImportModuleName r" x]
  by (cases "addModuleImport (getImportModuleName r) x s")
     (auto simp: walkImportNode_def)


section \<open>Dependencies come before their dependents\<close>

lemma occursBefore_findsBefore: "occursBefore x y t = findsBefore x y t"
proof (induction t)
  case Nil
  show ?case by (auto simp: occursBefore_def)
next
  case (Cons c t)
  have "occursBefore x y (c # t)
          = ((prefix x (c # t) \<and> sublist y (drop (length x) (c # t))) \<or> occursBefore x y t)"
  proof
    assume "occursBefore x y (c # t)"
    then obtain p q r where e: "c # t = p @ x @ q @ y @ r"
      by (auto simp: occursBefore_def)
    show "(prefix x (c # t) \<and> sublist y (drop (length x) (c # t))) \<or> occursBefore x y t"
    proof (cases p)
      case Nil
      with e have "c # t = x @ q @ y @ r" by simp
      then have "prefix x (c # t)" "drop (length x) (c # t) = q @ y @ r"
        by (simp_all add: prefix_def)
      then show ?thesis by simp
    next
      case (Cons c' p')
      with e have "t = p' @ x @ q @ y @ r" by simp
      then show ?thesis by (auto simp: occursBefore_def)
    qed
  next
    assume "(prefix x (c # t) \<and> sublist y (drop (length x) (c # t))) \<or> occursBefore x y t"
    then show "occursBefore x y (c # t)"
    proof
      assume a: "prefix x (c # t) \<and> sublist y (drop (length x) (c # t))"
      then obtain z where z: "c # t = x @ z" by (auto simp: prefix_def)
      with a obtain q r where "z = q @ y @ r" by (auto simp: sublist_def)
      with z have "c # t = [] @ x @ q @ y @ r" by simp
      then show ?thesis unfolding occursBefore_def by blast
    next
      assume "occursBefore x y t"
      then obtain p q r where "t = p @ x @ q @ y @ r" by (auto simp: occursBefore_def)
      then have "c # t = (c # p) @ x @ q @ y @ r" by simp
      then show ?thesis unfolding occursBefore_def by blast
    qed
  qed
  with Cons show ?case by simp
qed

lemma sublist_grow: "sublist x t \<Longrightarrow> sublist x (t @ z)"
  by (metis append.assoc sublist_def)

lemma bodiesPresent_cong:
  assumes "bodiesPresent fe b s" and "bundleCodeText s' = bundleCodeText s"
    and "bundleImportedFiles s' = bundleImportedFiles s"
  shows "bodiesPresent fe b s'"
  using assms by (simp add: bodiesPresent_def)

lemma addSourceFile_grows:
  assumes "addSourceFile fe b src s = Inr s'"
  shows "(\<exists>z. bundleCodeText s' = bundleCodeText s @ z)
         \<and> dom (bundleImportedFiles s) \<subseteq> dom (bundleImportedFiles s')"
  using assms by (auto simp: addSourceFile_def split: if_splits sum.splits)

lemma addSourceFile_code:
  assumes "addSourceFile fe b src s = Inr s'" and "isCodeSourceFile src"
  shows "\<exists>editText. processImportExports fe b src = Inr editText
           \<and> bundleCodeText s' = bundleCodeText s @ editText @ LF
           \<and> bundleImportedFiles s' = (bundleImportedFiles s)(fileName src \<mapsto> fileName src)"
  using assms by (auto simp: addSourceFile_def split: sum.splits)

lemma addSourceFile_present:
  assumes inv: "bodiesPresent fe b s"
    and prog: "getSourceFile fe (fileName src) = Some src"
    and add: "addSourceFile fe b src s = Inr s'"
  shows "bodiesPresent fe b s'"
proof (cases "isCodeSourceFile src")
  case False
  with add have "bundleCodeText s' = bundleCodeText s" "bundleImportedFiles s' = bundleImportedFiles s"
    by (auto simp: addSourceFile_def split: if_splits)
  with inv show ?thesis by (rule bodiesPresent_cong)
next
  case True
  from addSourceFile_code [OF add True] obtain editText where
    e: "processImportExports fe b src = Inr editText"
    and c: "bundleCodeText s' = bundleCodeText s @ editText @ LF"
    and i: "bundleImportedFiles s' = (bundleImportedFiles s)(fileName src \<mapsto> fileName src)"
    by blast
  show ?thesis
    unfolding bodiesPresent_def
  proof (intro allI impI, elim conjE)
    fix g
    assume pg: "getSourceFile fe (fileName g) = Some g"
      and dg: "fileName g \<in> dom (bundleImportedFiles s')"
    show "\<exists>editText. processImportExports fe b g = Inr editText
                      \<and> sublist (editText @ LF) (bundleCodeText s')"
    proof (cases "fileName g = fileName src")
      case True
      with pg prog have "g = src" by (metis option.inject)
      with e c show ?thesis by auto
    next
      case False
      with dg i have "fileName g \<in> dom (bundleImportedFiles s)" by auto
      with inv pg obtain t where "processImportExports fe b g = Inr t"
        and "sublist (t @ LF) (bundleCodeText s)"
        unfolding bodiesPresent_def by blast
      with c show ?thesis by (auto intro: sublist_grow)
    qed
  qed
qed

lemma walkImportNode_external_frame:
  assumes "walkImportNode fe b n s = Inr s'" and "getSymbolFromNode fe n = Some importSymbol"
    and "\<not> isCodeModule importSymbol"
  shows "bundleCodeText s' = bundleCodeText s \<and> bundleImportedFiles s' = bundleImportedFiles s"
proof (cases "\<exists>y r. info n = ImportEqualsDeclaration y r")
  case True
  then obtain y r where i: "info n = ImportEqualsDeclaration y r" by blast
  from walkImportNode_external_equals [OF i assms(2) assms(3), of b s] assms(1)
  show ?thesis
    by (auto simp: emitModuleImportDeclaration_def addModuleImport_frame split: if_splits)
next
  case False
  with assms have "s' = writeImportDeclaration n s"
    by (auto simp: walkImportNode_def split: nodeInfo.splits)
  then show ?thesis by (simp add: writeImportDeclaration_frame)
qed

lemma walkImportNode_present:
  assumes fb: "filesByName fe" and inv: "bodiesPresent fe b s"
    and walk: "walkImportNode fe b n s = Inr s'"
  shows "bodiesPresent fe b s'
         \<and> (\<exists>z. bundleCodeText s' = bundleCodeText s @ z)
         \<and> dom (bundleImportedFiles s) \<subseteq> dom (bundleImportedFiles s')
         \<and> (\<forall>importSymbol. getSymbolFromNode fe n = Some importSymbol \<and> isCodeModule importSymbol
               \<longrightarrow> fileName (declSourceFile importSymbol) \<in> dom (bundleImportedFiles s'))"
proof -
  from walk obtain importSymbol where sy: "getSymbolFromNode fe n = Some importSymbol"
    by (auto simp: walkImportNode_def split: option.splits)
  show ?thesis
  proof (cases "isCodeModule importSymbol")
    case False
    from walkImportNode_external_frame [OF walk sy False] inv sy False
    show ?thesis by (auto intro: bodiesPresent_cong)
  next
    case True
    let ?src = "declSourceFile importSymbol"
    from fb sy True have prog: "getSourceFile fe (fileName ?src) = Some ?src"
      unfolding filesByName_def by blast
    from True have code: "isCodeSourceFile ?src"
      by (simp add: isCodeModule_def isCodeSourceFile_def)
    show ?thesis
    proof (cases "fileName ?src \<in> dom (bundleImportedFiles s)")
      case True
      with walk sy \<open>isCodeModule importSymbol\<close> have "s' = s"
        by (auto simp: walkImportNode_def Let_def)
      with inv sy True show ?thesis by auto
    next
      case False
      with walk sy \<open>isCodeModule importSymbol\<close> have add: "addSourceFile fe b ?src s = Inr s'"
        by (auto simp: walkImportNode_def Let_def)
      from addSourceFile_present [OF inv prog add] addSourceFile_grows [OF add]
        addSourceFile_code [OF add code] sy
      show ?thesis by auto
    qed
  qed
qed

lemma walkImportNodes_present:
  assumes "filesByName fe" and "bodiesPresent fe b s"
    and "walkImportNodes fe b ns s = Inr s'"
  shows "bodiesPresent fe b s'
         \<and> (\<exists>z. bundleCodeText s' = bundleCodeText s @ z)
         \<and> dom (bundleImportedFiles s) \<subseteq> dom (bundleImportedFiles s')
         \<and> (\<forall>n importSymbol. n \<in> set ns \<and> getSymbolFromNode fe n = Some importSymbol
                \<and> isCodeModule importSymbol
               \<longrightarrow> fileName (declSourceFile importSymbol) \<in> dom (bundleImportedFiles s'))"
  using assms(2,3)
proof (induction ns arbitrary: s)
  case Nil
  then show ?case by simp
next
  case (Cons a ns)
  from Cons.prems(2) obtain s1 where w: "walkImportNode fe b a s = Inr s1"
    and r: "walkImportNodes fe b ns s1 = Inr s'"
    by (auto split: sum.splits)
  note one = walkImportNode_present [OF assms(1) Cons.prems(1) w]
  from one have i1: "bodiesPresent fe b s1" by blast
  note rest = Cons.IH [OF i1 r]
  from one rest show ?case
    by (auto, blast+)
qed

lemma walkDependencies_present:
  assumes "filesByName fe" and "bodiesPresent fe b s"
    and "walkDependencies fe b deps s = Inr s'"
  shows "bodiesPresent fe b s'
         \<and> (\<exists>z. bundleCodeText s' = bundleCodeText s @ z)
         \<and> dom (bundleImportedFiles s) \<subseteq> dom (bundleImportedFiles s')
         \<and> (\<forall>d n importSymbol. d \<in> set deps \<and> n \<in> set (snd d)
                \<and> getSymbolFromNode fe n = Some importSymbol \<and> isCodeModule importSymbol
               \<longrightarrow> fileName (declSourceFile importSymbol) \<in> dom (bundleImportedFiles s'))"
  using assms(2,3)
proof (induction deps arbitrary: s)
  case Nil
  then show ?case by simp
next
  case (Cons a deps)
  from Cons.prems(2) obtain s1 where w: "walkImportNodes fe b (snd a) s = Inr s1"
    and r: "walkDependencies fe b deps s1 = Inr s'"
    by (auto split: sum.splits)
  note one = walkImportNodes_present [OF assms(1) Cons.prems(1) w]
  from one have i1: "bodiesPresent fe b s1" by blast
  note rest = Cons.IH [OF i1 r]
  from one rest show ?case
    by (auto, blast+)
qed

lemma buildFiles_present:
  assumes "filesByName fe" and "bodiesPresent fe b s"
    and "buildFiles fe b es tsx s = Inr (Inr (tsx', s'))"
  shows "bodiesPresent fe b s'"
  using assms(2,3)
proof (induction es arbitrary: tsx s)
  case Nil
  then show ?case by simp
next
  case (Cons e es)
  from Cons.prems(2) obtain src s1 s2 t where
    g: "getSourceFile fe (getCanonicalFileName fe e) = Some src"
    and w: "walkDependencies fe b (getSourceFileDependencies fe src) s = Inr s1"
    and a: "addSourceFile fe b src s1 = Inr s2"
    and r: "buildFiles fe b es t s2 = Inr (Inr (tsx', s'))"
    by (auto simp: Let_def split: option.splits sum.splits)
  from assms(1) g have prog: "getSourceFile fe (fileName src) = Some src"
    unfolding filesByName_def by blast
  from walkDependencies_present [OF assms(1) Cons.prems(1) w]
  have i1: "bodiesPresent fe b s1" by blast
  from addSourceFile_present [OF i1 prog a] have i2: "bodiesPresent fe b s2" .
  from Cons.IH [OF i2 r] show ?case .
qed


lemma importsUnit_importedUnits: "importsUnit fe A B = (B \<in> set (importedUnits fe A))"
  by (auto simp: importsUnit_def importedUnits_def targetOf_def list_ex_iff map_filter_def
      image_iff split: option.splits if_splits)













text \<open>
  \<^verbatim>\<open>build\<close> does not order the dependencies itself: the bodies follow the dependency
  map. With the map that lists \<^verbatim>\<open>h.ts\<close> before \<^verbatim>\<open>k.ts\<close>, the body of \<^verbatim>\<open>k.ts\<close> comes
  after the body of \<^verbatim>\<open>h.ts\<close>, which imports it.
\<close>

lemma map_order_is_body_order:
  "importsUnit feChainR chainH chainK
   \<and> \<not> importsBack feChainR chainK chainH
   \<and> \<not> dependencyMapsOrdered feChainR componentG
   \<and> bodyText feChainR componentG
        = Some (''            H'' @ LF @ ''K'' @ LF @ ''            G'' @ LF)
   \<and> \<not> occursBefore ''K'' ''            H''
          (''            H'' @ LF @ ''K'' @ LF @ ''            G'' @ LF)"
proof -
  have g: "getSourceFile feChainR (getCanonicalFileName feChainR ''g.ts'') = Some chainG"
    by code_simp
  have ln: "listedNodes feChainR chainG = [importH, importK]" by code_simp
  have th: "targetOf feChainR importH = Some chainH" by code_simp
  have ik: "importedUnits feChainR chainK = []" by code_simp
  have ih: "importedUnits feChainR chainH = [chainK]" by code_simp
  have fn: "fileNames componentG = [''g.ts'']" by code_simp
  have hk: "importsUnit feChainR chainH chainK" by code_simp
  have nb: "\<not> importsBack feChainR chainK chainH"
  proof
    assume "importsBack feChainR chainK chainH"
    then obtain z where "importsUnit feChainR chainK z"
      unfolding importsBack_def by (auto dest: tranclpD)
    then show False by (simp add: importsUnit_importedUnits ik)
  qed
  have m: "\<not> dependencyMapsOrdered feChainR componentG"
    using nb by (simp add: dependencyMapsOrdered_def dependenciesFirst_def fn g ln th ih)
  have rest: "bodyText feChainR componentG
        = Some (''            H'' @ LF @ ''K'' @ LF @ ''            G'' @ LF)
   \<and> \<not> occursBefore ''K'' ''            H''
          (''            H'' @ LF @ ''K'' @ LF @ ''            G'' @ LF)"
    unfolding occursBefore_findsBefore by code_simp
  from hk nb m rest show ?thesis by blast
qed




end
